theory Spec2Isabelle
  imports Main
begin

section \<open>Python values and errors\<close>

text \<open>
  Exceptions of the Python source are values of the type \<open>error\<close>; a computation that may
  raise returns \<open>error + 'a\<close>, with \<open>Inl\<close> the exception raised.
\<close>

datatype error =
  IndexError | KeyError | AttributeError | TypeError
  | CancelledError | OSError | TimeoutError | AnsibleError | IllTyped
  | OverflowError | MemoryError

text \<open>
  Python list indexing \<open>xs[i]\<close>: a negative index counts from the end of the list, and
  an index outside \<open>-len(xs) .. len(xs) - 1\<close> raises IndexError.
\<close>

definition py_index :: "'a list \<Rightarrow> int \<Rightarrow> error + 'a" where
  "py_index xs i =
     (if 0 \<le> i \<and> i < int (length xs) then Inr (xs ! nat i)
      else if i < 0 \<and> - int (length xs) \<le> i then Inr (xs ! nat (int (length xs) + i))
      else Inl IndexError)"

section \<open>Breakpoint resolution against the line-validity list\<close>

text \<open>
  An entry of \<open>_source_info[path]\<close> is \<open>None\<close> (the line continues the previous
  entry), \<open>0\<close> (no breakpoint can be set) or \<open>1\<close> (start of a breakpoint range); the
  source types it \<open>t.Optional[int]\<close>.

  The first loop of the resolution, \<open>while line_type is None: start_line -= 1;
  line_type = file_lines[start_line]\<close>, on the pair of its two variables.
\<close>

function while_line_type_is_None ::
  "int option list \<Rightarrow> int \<Rightarrow> int option \<Rightarrow> error + (int \<times> int)" where
  "while_line_type_is_None file_lines start_line line_type =
     (case line_type of
        Some t \<Rightarrow> Inr (start_line, t)
      | None \<Rightarrow>
          (case py_index file_lines (start_line - 1) of
             Inl e \<Rightarrow> Inl e
           | Inr lt \<Rightarrow> while_line_type_is_None file_lines (start_line - 1) lt))"
  by pat_completeness auto
termination
  by (relation "measure (\<lambda>(file_lines, start_line, line_type).
        nat (start_line + int (length file_lines)))")
     (auto simp: py_index_def split: if_splits)

text \<open>
  The second loop, \<open>while end_line < len(file_lines) and file_lines[end_line] is None:
  end_line += 1\<close>.
\<close>

function while_end_line :: "int option list \<Rightarrow> int \<Rightarrow> error + int" where
  "while_end_line file_lines end_line =
     (if end_line < int (length file_lines) then
        (case py_index file_lines end_line of
           Inl e \<Rightarrow> Inl e
         | Inr None \<Rightarrow> while_end_line file_lines (end_line + 1)
         | Inr (Some t) \<Rightarrow> Inr end_line)
      else Inr end_line)"
  by pat_completeness auto
termination
  by (relation "measure (\<lambda>(file_lines, end_line). nat (int (length file_lines) - end_line))")
     auto

text \<open>
  The resolution block that \<open>process_message\<close> (SetBreakpointsRequest, lines 570-588) and
  \<open>register_path_breakpoint\<close> (lines 375-393) both contain, statement for statement:
  the result is \<open>(verified, bp_msg, start_line, end_line)\<close>.
\<close>

definition resolve_line ::
  "int option list \<Rightarrow> int \<Rightarrow> error + (bool \<times> string option \<times> int \<times> int)" where
  "resolve_line file_lines line =
     (let start_line = min line (int (length file_lines) - 1);
          end_line = start_line + 1
      in case py_index file_lines start_line of
           Inl e \<Rightarrow> Inl e
         | Inr line_type \<Rightarrow>
             (case while_line_type_is_None file_lines start_line line_type of
                Inl e \<Rightarrow> Inl e
              | Inr (start_line, line_type) \<Rightarrow>
                  (case while_end_line file_lines end_line of
                     Inl e \<Rightarrow> Inl e
                   | Inr end_line \<Rightarrow>
                       (let end_line = min (end_line - 1) (int (length file_lines))
                        in if line_type = 0
                           then Inr (False, Some ''Breakpoint cannot be set here.'',
                                     start_line, end_line)
                           else Inr (True, None, start_line, end_line)))))"

subsection \<open>The resolution algorithm as the specification words it\<close>

text \<open>
  Step 2 of the specification: while \<open>V[start]\<close> is a continuation entry, decrement
  \<open>start\<close>. \<open>V[i]\<close> is read as the program reads it (\<open>py_index\<close>).
\<close>

function spec_scan_back :: "int option list \<Rightarrow> int \<Rightarrow> error + int" where
  "spec_scan_back V start =
     (case py_index V start of
        Inl e \<Rightarrow> Inl e
      | Inr None \<Rightarrow> spec_scan_back V (start - 1)
      | Inr (Some t) \<Rightarrow> Inr start)"
  by pat_completeness auto
termination
  by (relation "measure (\<lambda>(V, start). nat (start + int (length V) + 1))")
     (auto simp: py_index_def split: if_splits)

text \<open>
  Step 3: while \<open>end < len(V)\<close> and \<open>V[end]\<close> is a continuation entry, increment
  \<open>end\<close>.
\<close>

function spec_scan_fwd :: "int option list \<Rightarrow> int \<Rightarrow> error + int" where
  "spec_scan_fwd V e =
     (if e < int (length V) then
        (case py_index V e of
           Inl err \<Rightarrow> Inl err
         | Inr None \<Rightarrow> spec_scan_fwd V (e + 1)
         | Inr (Some t) \<Rightarrow> Inr e)
      else Inr e)"
  by pat_completeness auto
termination
  by (relation "measure (\<lambda>(V, e). nat (int (length V) - e))") auto

text \<open>
  Steps 1 to 4 in the specification's order: \<open>end\<close> starts from the \<open>start\<close> that
  step 2 has found. The result is \<open>(verified, message, start, end)\<close>.
\<close>

definition spec_resolve ::
  "int option list \<Rightarrow> int \<Rightarrow> error + (bool \<times> string option \<times> int \<times> int)" where
  "spec_resolve V L =
     (case spec_scan_back V (min L (int (length V) - 1)) of
        Inl e \<Rightarrow> Inl e
      | Inr start \<Rightarrow>
          (case spec_scan_fwd V (start + 1) of
             Inl e \<Rightarrow> Inl e
           | Inr e \<Rightarrow>
               (case py_index V start of
                  Inl err \<Rightarrow> Inl err
                | Inr entry \<Rightarrow>
                    if entry = Some 0
                    then Inr (False, Some ''Breakpoint cannot be set here.'',
                              start, min (e - 1) (int (length V)))
                    else Inr (True, None, start, min (e - 1) (int (length V))))))"

section \<open>Protocol entities (dap/_types.py)\<close>

text \<open>
  The JSON-like values that \<open>pack\<close> produces and \<open>unpack\<close> reads: Python's
  \<open>None\<close>, booleans, integers, strings, lists and dictionaries with string keys (in
  insertion order).
\<close>

datatype json =
  JNone | JBool bool | JInt int | JStr string | JList "json list" | JDict "(string \<times> json) list"

record Checksum =
  algorithm :: string
  checksum :: string

datatype Source = Source
  (src_name: "string option")
  (src_path: "string option")
  (src_source_reference: int)
  (src_presentation_hint: string)
  (src_origin: "string option")
  (src_sources: "Source list")
  (src_adapter_data: json)
  (src_checksums: "Checksum list")

record SourceBreakpoint =
  sb_line :: int
  sb_column :: "int option"
  sb_condition :: "string option"
  sb_hit_condition :: "string option"
  sb_log_message :: "string option"

record Breakpoint =
  bp_id :: "int option"
  bp_verified :: bool
  bp_message :: "string option"
  bp_source :: "Source option"
  bp_line :: "int option"
  bp_column :: "int option"
  bp_end_line :: "int option"
  bp_end_column :: "int option"
  bp_instruction_reference :: "string option"
  bp_offset :: "int option"

text \<open>
  \<open>Breakpoint(id=..., verified=..., message=..., source=..., line=..., end_line=...)\<close>
  as the debugger constructs it: the fields it does not pass keep the dataclass's
  default \<open>None\<close>.
\<close>

definition mk_Breakpoint ::
  "int \<Rightarrow> bool \<Rightarrow> string option \<Rightarrow> Source \<Rightarrow> int option \<Rightarrow> int option \<Rightarrow> Breakpoint" where
  "mk_Breakpoint i v m src l el =
     \<lparr>bp_id = Some i, bp_verified = v, bp_message = m, bp_source = Some src,
      bp_line = l, bp_column = None, bp_end_line = el, bp_end_column = None,
      bp_instruction_reference = None, bp_offset = None\<rparr>"

section \<open>The debugger state (_debuggee.py)\<close>

record AnsibleLineBreakpoint =
  alb_id :: int
  alb_source :: Source
  alb_source_breakpoint :: SourceBreakpoint
  alb_breakpoint :: Breakpoint

text \<open>The property \<open>path\<close>: \<open>self.source.path or ""\<close>.\<close>

definition alb_path :: "AnsibleLineBreakpoint \<Rightarrow> string" where
  "alb_path b = (case src_path (alb_source b) of None \<Rightarrow> [] | Some p \<Rightarrow> p)"

datatype StoppedReason = STEP | BREAKPOINT

text \<open>The messages the modelled code puts on the send queue.\<close>

datatype ProtocolMessage =
  BreakpointEvent string Breakpoint
  | SetBreakpointsResponse int "Breakpoint list"
  | StoppedEvent int StoppedReason string

text \<open>
  The fields of \<open>dap.SetBreakpointsRequest\<close> that the handler reads: \<open>seq\<close>,
  \<open>source\<close>, \<open>breakpoints\<close> and \<open>source_modified\<close>.
\<close>

record SetBreakpointsRequest =
  req_seq :: int
  req_source :: Source
  req_breakpoints :: "SourceBreakpoint list"
  req_source_modified :: bool

text \<open>
  The fields of \<open>AnsibleDebugger\<close> that the breakpoint code reads and writes. The
  dictionary \<open>_breakpoints\<close> is a list of pairs in insertion order, the order in which
  Python iterates it; \<open>_send_queue\<close> grows at its end.
\<close>

record AnsibleDebugger =
  connected :: bool
  send_queue :: "ProtocolMessage list"
  breakpoints :: "(int \<times> AnsibleLineBreakpoint) list"
  breakpoint_counter :: int
  source_info :: "string \<rightharpoonup> int option list"

definition send :: "AnsibleDebugger \<Rightarrow> ProtocolMessage \<Rightarrow> AnsibleDebugger" where
  "send self msg = self\<lparr>send_queue := send_queue self @ [msg]\<rparr>"

text \<open>
  \<open>d[k] = v\<close> on a dictionary: the value of an existing key is replaced where it
  stands, a new key goes to the end.
\<close>

fun dict_set :: "('k \<times> 'v) list \<Rightarrow> 'k \<Rightarrow> 'v \<Rightarrow> ('k \<times> 'v) list" where
  "dict_set [] k v = [(k, v)]"
| "dict_set ((k', v') # d) k v = (if k' = k then (k, v) # d else (k', v') # dict_set d k v)"

subsection \<open>get_breakpoint\<close>

definition bp_matches :: "string \<Rightarrow> int \<Rightarrow> AnsibleLineBreakpoint \<Rightarrow> bool" where
  "bp_matches path line b =
     (alb_path b = path
      \<and> (case bp_line (alb_breakpoint b) of None \<Rightarrow> True | Some l \<Rightarrow> l \<le> line)
      \<and> (case bp_end_line (alb_breakpoint b) of None \<Rightarrow> True | Some e \<Rightarrow> e \<ge> line))"

definition get_breakpoint ::
  "AnsibleDebugger \<Rightarrow> string \<Rightarrow> int \<Rightarrow> AnsibleLineBreakpoint option" where
  "get_breakpoint self path line =
     (if \<not> connected self then None
      else find (bp_matches path line) (map snd (breakpoints self)))"

subsection \<open>process_message for a SetBreakpointsRequest\<close>

text \<open>
  Lines 560-597: the breakpoint the loop body builds for one requested breakpoint of a
  request that is not flagged as modified source. \<open>not source_info\<close> holds for
  \<open>None\<close> and for the empty list.
\<close>

definition SetBreakpoints_bp ::
  "SetBreakpointsRequest \<Rightarrow> int option list option \<Rightarrow> int \<Rightarrow> SourceBreakpoint
   \<Rightarrow> error + Breakpoint" where
  "SetBreakpoints_bp msg src_info bpid source_breakpoint =
     (case src_info of
        None \<Rightarrow>
          Inr (mk_Breakpoint bpid False
                 (Some ''File has not been loaded by Ansible, cannot detect breakpoints yet.'')
                 (req_source msg) (Some (sb_line source_breakpoint)) None)
      | Some file_lines \<Rightarrow>
          if file_lines = [] then
            Inr (mk_Breakpoint bpid False
                   (Some ''File has not been loaded by Ansible, cannot detect breakpoints yet.'')
                   (req_source msg) (Some (sb_line source_breakpoint)) None)
          else
            (case resolve_line file_lines (sb_line source_breakpoint) of
               Inl e \<Rightarrow> Inl e
             | Inr (verified, bp_msg, start_line, end_line) \<Rightarrow>
                 Inr (mk_Breakpoint bpid verified bp_msg (req_source msg)
                        (Some start_line) (Some end_line))))"

text \<open>
  The loop over \<open>msg.breakpoints\<close> (lines 544-605), on the breakpoints still to do,
  the debugger and the list \<open>breakpoint_info\<close>. An exception leaves the debugger as
  the loop had changed it so far.
\<close>

fun set_breakpoints_loop ::
  "SetBreakpointsRequest \<Rightarrow> int option list option \<Rightarrow> SourceBreakpoint list
   \<Rightarrow> AnsibleDebugger \<Rightarrow> Breakpoint list
   \<Rightarrow> (error + Breakpoint list) \<times> AnsibleDebugger" where
  "set_breakpoints_loop msg src_info [] self breakpoint_info = (Inr breakpoint_info, self)"
| "set_breakpoints_loop msg src_info (source_breakpoint # rest) self breakpoint_info =
     (let bpid = breakpoint_counter self;
          self1 = self\<lparr>breakpoint_counter := breakpoint_counter self + 1\<rparr>
      in if req_source_modified msg then
           set_breakpoints_loop msg src_info rest self1
             (breakpoint_info @
                [\<lparr>bp_id = Some bpid, bp_verified = False,
                  bp_message = Some ''Cannot set breakpoint on a modified source.'',
                  bp_source = Some (req_source msg),
                  bp_line = None, bp_column = None, bp_end_line = None, bp_end_column = None,
                  bp_instruction_reference = None, bp_offset = None\<rparr>])
         else
           (case SetBreakpoints_bp msg src_info bpid source_breakpoint of
              Inl e \<Rightarrow> (Inl e, self1)
            | Inr bp \<Rightarrow>
                set_breakpoints_loop msg src_info rest
                  (self1\<lparr>breakpoints :=
                     dict_set (breakpoints self1) bpid
                       \<lparr>alb_id = bpid, alb_source = req_source msg,
                        alb_source_breakpoint = source_breakpoint, alb_breakpoint = bp\<rparr>\<rparr>)
                  (breakpoint_info @ [bp])))"

text \<open>The handler (lines 531-611).\<close>

definition process_message_SetBreakpoints ::
  "SetBreakpointsRequest \<Rightarrow> AnsibleDebugger \<Rightarrow> (error + unit) \<times> AnsibleDebugger" where
  "process_message_SetBreakpoints msg self =
     (let source_path = (case src_path (req_source msg) of None \<Rightarrow> [] | Some p \<Rightarrow> p);
          src_info = source_info self source_path;
          self1 = self\<lparr>breakpoints :=
                    filter (\<lambda>(bpid, b). alb_path b \<noteq> source_path) (breakpoints self)\<rparr>
      in case set_breakpoints_loop msg src_info (req_breakpoints msg) self1 [] of
           (Inl e, self2) \<Rightarrow> (Inl e, self2)
         | (Inr breakpoint_info, self2) \<Rightarrow>
             (Inr (), send self2 (SetBreakpointsResponse (req_seq msg) breakpoint_info)))"

subsection \<open>register_path_breakpoint\<close>

text \<open>\<open>xs[i] = v\<close> on a list, with Python's negative indices and its IndexError.\<close>

definition py_setitem :: "'a list \<Rightarrow> int \<Rightarrow> 'a \<Rightarrow> error + 'a list" where
  "py_setitem xs i v =
     (if 0 \<le> i \<and> i < int (length xs) then Inr (xs[nat i := v])
      else if i < 0 \<and> - int (length xs) \<le> i then Inr (xs[nat (int (length xs) + i) := v])
      else Inl IndexError)"

text \<open>
  The body of the loop over the breakpoints (lines 371-413) for a breakpoint of the
  path: the breakpoint as the loop leaves it, and the events it sends.
\<close>

definition reresolve_breakpoint ::
  "int option list \<Rightarrow> AnsibleLineBreakpoint
   \<Rightarrow> error + (AnsibleLineBreakpoint \<times> ProtocolMessage list)" where
  "reresolve_breakpoint file_lines breakpoint =
     (case resolve_line file_lines (sb_line (alb_source_breakpoint breakpoint)) of
        Inl e \<Rightarrow> Inl e
      | Inr (verified, bp_msg, start_line, end_line) \<Rightarrow>
          if bp_verified (alb_breakpoint breakpoint) \<noteq> verified
             \<or> bp_line (alb_breakpoint breakpoint) \<noteq> Some start_line
             \<or> bp_end_line (alb_breakpoint breakpoint) \<noteq> Some end_line
          then
            (let bp = mk_Breakpoint (alb_id breakpoint) verified bp_msg (alb_source breakpoint)
                        (Some start_line) (Some end_line)
             in Inr (breakpoint\<lparr>alb_breakpoint := bp\<rparr>, [BreakpointEvent ''changed'' bp]))
          else Inr (breakpoint, []))"

text \<open>
  The loop \<open>for breakpoint in self._breakpoints.values()\<close>: the breakpoints are
  changed where they stand, and an exception stops the loop with the breakpoints
  before it already changed and their events already sent.
\<close>

fun reresolve_loop ::
  "string \<Rightarrow> int option list \<Rightarrow> (int \<times> AnsibleLineBreakpoint) list
   \<Rightarrow> error option \<times> (int \<times> AnsibleLineBreakpoint) list \<times> ProtocolMessage list" where
  "reresolve_loop path file_lines [] = (None, [], [])"
| "reresolve_loop path file_lines ((k, breakpoint) # rest) =
     (if alb_path breakpoint \<noteq> path then
        (case reresolve_loop path file_lines rest of
           (r, bs, evs) \<Rightarrow> (r, (k, breakpoint) # bs, evs))
      else
        (case reresolve_breakpoint file_lines breakpoint of
           Inl e \<Rightarrow> (Some e, (k, breakpoint) # rest, [])
         | Inr (breakpoint', evs') \<Rightarrow>
             (case reresolve_loop path file_lines rest of
                (r, bs, evs) \<Rightarrow> (r, (k, breakpoint') # bs, evs' @ evs))))"

text \<open>
  \<open>xs.extend([None] * n)\<close>. A count that is not positive gives the empty list, and
  \<open>xs\<close> stays as it is. A count above \<open>sys.maxsize\<close> raises OverflowError; below that,
  a list the interpreter cannot allocate raises MemoryError. How long a list the
  interpreter can allocate depends on the machine: it is the parameter \<open>max_list\<close>.
  \<open>sys.maxsize\<close> has the value of a 64-bit build.
\<close>

definition sys_maxsize :: int where
  "sys_maxsize = 9223372036854775807"

definition extend_with_None ::
  "int \<Rightarrow> 'a option list \<Rightarrow> int \<Rightarrow> error + 'a option list" where
  "extend_with_None max_list xs n =
     (if n \<le> 0 then Inr xs
      else if sys_maxsize < n then Inl OverflowError
      else if max_list < int (length xs) + n then Inl MemoryError
      else Inr (xs @ replicate (nat n) None))"

text \<open>
  \<open>register_path_breakpoint\<close> (lines 345-413). \<open>setdefault\<close> stores the list before
  anything can raise, and the list is changed where it stands: an exception leaves the
  path with the list as far as it had been changed.
\<close>

definition register_path_breakpoint ::
  "int \<Rightarrow> string \<Rightarrow> int \<Rightarrow> int \<Rightarrow> AnsibleDebugger \<Rightarrow> (error + unit) \<times> AnsibleDebugger" where
  "register_path_breakpoint max_list path line bp_type self =
     (let file_lines = (case source_info self path of None \<Rightarrow> [Some 0] | Some fl \<Rightarrow> fl)
      in case extend_with_None max_list file_lines (1 + line - int (length file_lines)) of
           Inl e \<Rightarrow> (Inl e, self\<lparr>source_info := (source_info self)(path \<mapsto> file_lines)\<rparr>)
         | Inr file_lines \<Rightarrow>
             (case py_setitem file_lines line (Some bp_type) of
                Inl e \<Rightarrow> (Inl e, self\<lparr>source_info := (source_info self)(path \<mapsto> file_lines)\<rparr>)
              | Inr file_lines \<Rightarrow>
                  (case reresolve_loop path file_lines (breakpoints self) of
                     (r, bs, evs) \<Rightarrow>
                       ((case r of None \<Rightarrow> Inr () | Some e \<Rightarrow> Inl e),
                        self\<lparr>source_info := (source_info self)(path \<mapsto> file_lines),
                             breakpoints := bs,
                             send_queue := send_queue self @ evs\<rparr>))))"

section \<open>The strategy's debug state (plugins/strategy/debug.py)\<close>

text \<open>\<open>stepping_type\<close> is one of the literals \<open>"in"\<close>, \<open>"out"\<close>, \<open>"over"\<close>.\<close>

datatype stepping = StepIn | StepOut | StepOver

text \<open>
  What the stepping predicates read of a task and of the objects on its \<open>_parent\<close>
  chain (tasks and blocks): \<open>_uuid\<close>, whether the object is an instance of \<open>Task\<close>,
  \<open>action\<close> and \<open>_parent\<close>.
\<close>

datatype Task = Task
  (task_uuid: string)
  (isinstance_Task: bool)
  (task_action: string)
  (task_parent: "Task option")

record AnsibleThread =
  thr_id :: int
  thr_host :: "string option"
  thr_stack_frames :: "int list"
  stepping_type :: "stepping option"
  stepping_task :: "Task option"

text \<open>\<open>while task := task._parent: if isinstance(task, Task): break\<close>, then \<open>task\<close>.\<close>

fun nearest_Task_parent :: "Task \<Rightarrow> Task option" where
  "nearest_Task_parent (Task u i a None) = None"
| "nearest_Task_parent (Task u i a (Some p)) =
     (if isinstance_Task p then Some p else nearest_Task_parent p)"

text \<open>
  \<open>while task := task._parent: if task._uuid == uuid: return False\<close>, then
  \<open>return True\<close>: whether an object of the parent chain has the uuid.
\<close>

fun parent_chain_has_uuid :: "Task \<Rightarrow> string \<Rightarrow> bool" where
  "parent_chain_has_uuid (Task u i a None) uuid = False"
| "parent_chain_has_uuid (Task u i a (Some p)) uuid =
     (if task_uuid p = uuid then True else parent_chain_has_uuid p uuid)"

definition break_step_over :: "AnsibleThread \<Rightarrow> Task \<Rightarrow> bool" where
  "break_step_over thread task =
     (case stepping_task thread of
        None \<Rightarrow> False
      | Some st \<Rightarrow>
          if stepping_type thread \<noteq> Some StepOver then False
          else map_option task_uuid (nearest_Task_parent st)
               = map_option task_uuid (nearest_Task_parent task))"

definition break_step_in :: "AnsibleThread \<Rightarrow> bool" where
  "break_step_in thread = (stepping_type thread = Some StepIn)"

definition break_step_out :: "AnsibleThread \<Rightarrow> Task \<Rightarrow> bool" where
  "break_step_out thread task =
     (case stepping_task thread of
        None \<Rightarrow> False
      | Some st \<Rightarrow>
          if stepping_type thread \<noteq> Some StepOut then False
          else \<not> parent_chain_has_uuid task (task_uuid st))"

text \<open>
  Lines 231-240 of \<open>process_task\<close>. The evaluation of the condition by Ansible's
  \<open>Conditional.evaluate_conditional\<close> is the parameter \<open>evaluate_conditional\<close>: the
  boolean it returns, or the exception it raises. Only \<open>AnsibleError\<close> is caught. A
  condition that is \<open>None\<close> or the empty string is not evaluated.
\<close>

definition check_condition ::
  "(string \<Rightarrow> error + bool) \<Rightarrow> AnsibleLineBreakpoint option
   \<Rightarrow> error + AnsibleLineBreakpoint option" where
  "check_condition evaluate_conditional line_breakpoint =
     (case line_breakpoint of
        None \<Rightarrow> Inr None
      | Some b \<Rightarrow>
          (case sb_condition (alb_source_breakpoint b) of
             None \<Rightarrow> Inr (Some b)
           | Some c \<Rightarrow>
               if c = [] then Inr (Some b)
               else
                 (case evaluate_conditional c of
                    Inl e \<Rightarrow> if e = AnsibleError then Inr None else Inl e
                  | Inr v \<Rightarrow> if \<not> v then Inr None else Inr (Some b))))"

text \<open>Lines 242-265: the \<open>if\<close>/\<open>elif\<close> chain that fills \<open>stopped_kwargs\<close>.\<close>

definition stopped_kwargs ::
  "AnsibleThread \<Rightarrow> Task \<Rightarrow> AnsibleLineBreakpoint option \<Rightarrow> (StoppedReason \<times> string) option" where
  "stopped_kwargs thread task line_breakpoint =
     (if break_step_over thread task then Some (STEP, ''Step over'')
      else if break_step_out thread task then Some (STEP, ''Step out'')
      else if break_step_in thread then Some (STEP, ''Step in'')
      else if stepping_type thread \<noteq> Some StepOut \<and> line_breakpoint \<noteq> None
        then Some (BREAKPOINT, ''Breakpoint hit'')
      else None)"

text \<open>
  Lines 216-272 of \<open>process_task\<close>, from the task's path to the stopped event: the
  result is \<open>stopped_kwargs\<close> (\<open>None\<close> when the thread does not stop), and the debugger
  with the event on its send queue. \<open>task_path\<close> is \<open>task.get_path()\<close> split at its
  last colon, \<open>None\<close> when the task has no path.
\<close>

definition process_task ::
  "AnsibleDebugger \<Rightarrow> (string \<Rightarrow> error + bool) \<Rightarrow> AnsibleThread \<Rightarrow> Task
   \<Rightarrow> (string \<times> int) option
   \<Rightarrow> (error + (StoppedReason \<times> string) option) \<times> AnsibleDebugger" where
  "process_task debugger evaluate_conditional thread task task_path =
     (case task_path of
        None \<Rightarrow> (Inr None, debugger)
      | Some (path, line) \<Rightarrow>
          (case check_condition evaluate_conditional (get_breakpoint debugger path line) of
             Inl e \<Rightarrow> (Inl e, debugger)
           | Inr line_breakpoint \<Rightarrow>
               (case stopped_kwargs thread task line_breakpoint of
                  None \<Rightarrow> (Inr None, debugger)
                | Some (reason, description) \<Rightarrow>
                    (Inr (Some (reason, description)),
                     send debugger (StoppedEvent (thr_id thread) reason description)))))"

subsection \<open>Waiting for the client's command\<close>

text \<open>
  \<open>_waiting_threads\<close> maps a thread id to the stepping action the client chose for
  it. A thread that has sent its stopped event blocks in
  \<open>self._waiting_condition.wait_for(lambda: tid in self._waiting_threads)\<close>, which returns
  once the predicate holds and otherwise sleeps until the next \<open>notify_all\<close>. The two
  methods that notify are \<open>_continue\<close> and \<open>ended\<close>.
\<close>

type_synonym waiting_threads = "(int \<times> stepping option) list"

datatype notification = Continue "int list" "stepping option" | Ended

definition continue_threads :: "int list \<Rightarrow> stepping option \<Rightarrow> waiting_threads \<Rightarrow> waiting_threads" where
  "continue_threads thread_ids action w = fold (\<lambda>tid d. dict_set d tid action) thread_ids w"

definition ended :: "waiting_threads \<Rightarrow> waiting_threads" where
  "ended w = []"

fun notify :: "notification \<Rightarrow> waiting_threads \<Rightarrow> waiting_threads" where
  "notify (Continue thread_ids action) w = continue_threads thread_ids action w"
| "notify Ended w = ended w"

text \<open>
  \<open>wait_for\<close> over the notifications that follow, in their order: \<open>Some\<close> of the
  dictionary at the moment the wait returns, \<open>None\<close> when no notification is left and
  the thread is still blocked.
\<close>

fun wait_for :: "int \<Rightarrow> notification list \<Rightarrow> waiting_threads \<Rightarrow> waiting_threads option" where
  "wait_for tid [] w = (if tid \<in> set (map fst w) then Some w else None)"
| "wait_for tid (n # ns) w =
     (if tid \<in> set (map fst w) then Some w else wait_for tid ns (notify n w))"

section \<open>The cancellation token (_socket_helper.py)\<close>

datatype shutdown_how = SHUT_RD | SHUT_WR | SHUT_RDWR

text \<open>
  A cancel function of the source shuts the socket down in one direction; the token
  keeps them in \<open>_cancel_funcs\<close> under their ids.
\<close>

record SocketCancellationToken =
  cancel_funcs :: "(int \<times> shutdown_how) list"
  cancel_id :: int
  cancelled :: bool

definition cancel :: "SocketCancellationToken \<Rightarrow> SocketCancellationToken" where
  "cancel tok = tok\<lparr>cancelled := True, cancel_funcs := []\<rparr>"

text \<open>The two halves of the context manager \<open>with_cancel\<close>.\<close>

definition with_cancel_enter ::
  "SocketCancellationToken \<Rightarrow> shutdown_how \<Rightarrow> error + (int \<times> SocketCancellationToken)" where
  "with_cancel_enter tok cancel_func =
     (if cancelled tok then Inl CancelledError
      else Inr (cancel_id tok,
                tok\<lparr>cancel_id := cancel_id tok + 1,
                    cancel_funcs := dict_set (cancel_funcs tok) (cancel_id tok) cancel_func\<rparr>))"

definition with_cancel_exit :: "SocketCancellationToken \<Rightarrow> int \<Rightarrow> SocketCancellationToken" where
  "with_cancel_exit tok cid = tok\<lparr>cancel_funcs := filter (\<lambda>(k, f). k \<noteq> cid) (cancel_funcs tok)\<rparr>"

text \<open>
  What the socket call inside the guard does: it returns, or it raises. \<open>TimeoutError\<close>
  is a subclass of \<open>OSError\<close>, so \<open>except OSError\<close> catches both.
\<close>

datatype 'a outcome = Returns 'a | Raises error

definition is_OSError :: "error \<Rightarrow> bool" where
  "is_OSError e = (e = OSError \<or> e = TimeoutError)"

text \<open>
  \<open>cancel()\<close> sets \<open>_cancelled\<close>, calls the cancel functions, and empties
  \<open>_cancel_funcs\<close> last, all under the lock. The handlers of the guarded operations
  read \<open>_cancelled\<close> and \<open>_cancel_funcs\<close> without the lock, so when another thread
  cancels while the socket call is blocked, a handler sees the token either with
  \<open>cancel()\<close> finished, or with \<open>cancel()\<close> still running: \<open>_cancelled\<close> set, the
  cancel functions still in the dictionary. The exit of \<open>with_cancel\<close> takes the lock,
  so it runs once \<open>cancel()\<close> has finished.
\<close>

datatype cancel_progress = Not_cancelled | Cancel_running | Cancel_finished

definition seen_by_handler ::
  "cancel_progress \<Rightarrow> SocketCancellationToken \<Rightarrow> SocketCancellationToken" where
  "seen_by_handler p tok =
     (case p of
        Not_cancelled \<Rightarrow> tok
      | Cancel_running \<Rightarrow> tok\<lparr>cancelled := True\<rparr>
      | Cancel_finished \<Rightarrow> cancel tok)"

definition seen_at_exit ::
  "cancel_progress \<Rightarrow> SocketCancellationToken \<Rightarrow> SocketCancellationToken" where
  "seen_at_exit p tok =
     (case p of
        Not_cancelled \<Rightarrow> tok
      | Cancel_running \<Rightarrow> cancel tok
      | Cancel_finished \<Rightarrow> cancel tok)"

text \<open>
  The four guarded operations. \<open>cancel_during\<close> says how far a \<open>cancel()\<close> of another
  thread has come when the operation looks at the token after the socket call; \<open>call\<close>
  is what the socket call does (for \<open>accept\<close>: \<open>select\<close> and \<open>sock.accept()\<close>
  together, a timeout of \<open>select\<close> being \<open>Raises TimeoutError\<close>).
\<close>

definition accept ::
  "SocketCancellationToken \<Rightarrow> cancel_progress \<Rightarrow> 'a outcome
   \<Rightarrow> (error + 'a) \<times> SocketCancellationToken" where
  "accept tok cancel_during call =
     (case with_cancel_enter tok SHUT_RDWR of
        Inl e \<Rightarrow> (Inl e, tok)
      | Inr (cid, tok1) \<Rightarrow>
          (let tok2 = seen_by_handler cancel_during tok1
           in ((case call of
                  Returns r \<Rightarrow> Inr r
                | Raises e \<Rightarrow>
                    if is_OSError e then (if cancelled tok2 then Inl CancelledError else Inl e)
                    else Inl e),
               with_cancel_exit (seen_at_exit cancel_during tok1) cid)))"

definition connect ::
  "SocketCancellationToken \<Rightarrow> cancel_progress \<Rightarrow> unit outcome
   \<Rightarrow> (error + unit) \<times> SocketCancellationToken" where
  "connect tok cancel_during call =
     (case with_cancel_enter tok SHUT_RDWR of
        Inl e \<Rightarrow> (Inl e, tok)
      | Inr (cid, tok1) \<Rightarrow>
          (let tok2 = seen_by_handler cancel_during tok1
           in ((case call of
                  Returns r \<Rightarrow> Inr r
                | Raises e \<Rightarrow>
                    if is_OSError e then (if cancelled tok2 then Inl CancelledError else Inl e)
                    else Inl e),
               with_cancel_exit (seen_at_exit cancel_during tok1) cid)))"

definition recv_into ::
  "SocketCancellationToken \<Rightarrow> cancel_progress \<Rightarrow> int outcome
   \<Rightarrow> (error + int) \<times> SocketCancellationToken" where
  "recv_into tok cancel_during call =
     (case with_cancel_enter tok SHUT_RD of
        Inl e \<Rightarrow> (Inl e, tok)
      | Inr (cid, tok1) \<Rightarrow>
          (let tok2 = seen_by_handler cancel_during tok1
           in ((case call of
                  Raises e \<Rightarrow> Inl e
                | Returns res \<Rightarrow> if cancelled tok2 then Inl CancelledError else Inr res),
               with_cancel_exit (seen_at_exit cancel_during tok1) cid)))"

definition sendall ::
  "SocketCancellationToken \<Rightarrow> cancel_progress \<Rightarrow> unit outcome
   \<Rightarrow> (error + unit) \<times> SocketCancellationToken" where
  "sendall tok cancel_during call =
     (case with_cancel_enter tok SHUT_WR of
        Inl e \<Rightarrow> (Inl e, tok)
      | Inr (cid, tok1) \<Rightarrow>
          (let tok2 = seen_by_handler cancel_during tok1
           in ((case call of
                  Raises e \<Rightarrow>
                    if is_OSError e then (if cancel_funcs tok2 \<noteq> [] then Inl CancelledError else Inl e)
                    else Inl e
                | Returns r \<Rightarrow> if cancelled tok2 then Inl CancelledError else Inr r),
               with_cancel_exit (seen_at_exit cancel_during tok1) cid)))"

section \<open>pack and unpack\<close>

text \<open>
  \<open>d.get(k, default)\<close> on a dictionary. \<open>pack\<close> writes every key, so on a packed
  value the default is never used and a key packed as \<open>None\<close> is read back as
  \<open>None\<close>.
\<close>

definition dict_get :: "(string \<times> json) list \<Rightarrow> string \<Rightarrow> json \<Rightarrow> json" where
  "dict_get kvs k d = (case map_of kvs k of None \<Rightarrow> d | Some v \<Rightarrow> v)"

text \<open>
  The typed fields of the dataclasses. \<open>unpack\<close> stores whatever value the dictionary
  holds; a value that is not of the field's declared type has no counterpart in the typed
  records here and is reported as \<open>IllTyped\<close> (no exception of the source).
\<close>

definition as_opt_str :: "json \<Rightarrow> error + string option" where
  "as_opt_str v = (case v of JNone \<Rightarrow> Inr None | JStr s \<Rightarrow> Inr (Some s) | _ \<Rightarrow> Inl IllTyped)"

definition as_opt_int :: "json \<Rightarrow> error + int option" where
  "as_opt_int v = (case v of JNone \<Rightarrow> Inr None | JInt n \<Rightarrow> Inr (Some n) | _ \<Rightarrow> Inl IllTyped)"

definition as_str :: "json \<Rightarrow> error + string" where
  "as_str v = (case v of JStr s \<Rightarrow> Inr s | _ \<Rightarrow> Inl IllTyped)"

definition as_bool :: "json \<Rightarrow> error + bool" where
  "as_bool v = (case v of JBool b \<Rightarrow> Inr b | _ \<Rightarrow> Inl IllTyped)"

definition json_opt_str :: "string option \<Rightarrow> json" where
  "json_opt_str v = (case v of None \<Rightarrow> JNone | Some s \<Rightarrow> JStr s)"

definition json_opt_int :: "int option \<Rightarrow> json" where
  "json_opt_int v = (case v of None \<Rightarrow> JNone | Some n \<Rightarrow> JInt n)"

text \<open>
  Iterating a value, as the list comprehensions of \<open>unpack\<close> do: a list gives its
  elements, a dictionary its keys, a string its characters; \<open>None\<close>, a boolean and
  an integer raise TypeError.
\<close>

definition py_iter :: "json \<Rightarrow> error + json list" where
  "py_iter v =
     (case v of
        JList xs \<Rightarrow> Inr xs
      | JDict kvs \<Rightarrow> Inr (map (\<lambda>(k, x). JStr k) kvs)
      | JStr s \<Rightarrow> Inr (map (\<lambda>c. JStr [c]) s)
      | _ \<Rightarrow> Inl TypeError)"

text \<open>The results of a list comprehension whose element expression may raise.\<close>

fun collect :: "(error + 'a) list \<Rightarrow> error + 'a list" where
  "collect [] = Inr []"
| "collect (Inl e # rs) = Inl e"
| "collect (Inr x # rs) = (case collect rs of Inl e \<Rightarrow> Inl e | Inr xs \<Rightarrow> Inr (x # xs))"

definition pack_Checksum :: "Checksum \<Rightarrow> json" where
  "pack_Checksum c = JDict [(''algorithm'', JStr (algorithm c)), (''checksum'', JStr (checksum c))]"

definition unpack_Checksum :: "json \<Rightarrow> error + Checksum" where
  "unpack_Checksum body =
     (case body of
        JDict kvs \<Rightarrow>
          (case map_of kvs ''algorithm'' of
             None \<Rightarrow> Inl KeyError
           | Some a \<Rightarrow>
               (case map_of kvs ''checksum'' of
                  None \<Rightarrow> Inl KeyError
                | Some c \<Rightarrow>
                    (case as_str a of
                       Inl e \<Rightarrow> Inl e
                     | Inr a' \<Rightarrow>
                         (case as_str c of
                            Inl e \<Rightarrow> Inl e
                          | Inr c' \<Rightarrow> Inr \<lparr>algorithm = a', checksum = c'\<rparr>))))
      | _ \<Rightarrow> Inl TypeError)"

fun pack_Source :: "Source \<Rightarrow> json" where
  "pack_Source (Source name path source_reference presentation_hint origin sources adapter_data checksums) =
     JDict
       [(''name'', json_opt_str name),
        (''path'', json_opt_str path),
        (''sourceReference'', JInt source_reference),
        (''presentationHint'', JStr presentation_hint),
        (''origin'', json_opt_str origin),
        (''sources'', JList (map pack_Source sources)),
        (''adapterData'', adapter_data),
        (''checksums'', JList (map pack_Checksum checksums))]"

text \<open>\<open>body.get("sourceReference", None) or 0\<close>.\<close>

definition source_reference_or_0 :: "json \<Rightarrow> error + int" where
  "source_reference_or_0 v = (case v of JNone \<Rightarrow> Inr 0 | JInt n \<Rightarrow> Inr n | _ \<Rightarrow> Inl IllTyped)"

function unpack_Source :: "json \<Rightarrow> error + Source" where
  "unpack_Source body =
     (case body of
        JDict kvs \<Rightarrow>
          (case as_opt_str (dict_get kvs ''name'' JNone) of Inl e \<Rightarrow> Inl e | Inr name \<Rightarrow>
          (case as_opt_str (dict_get kvs ''path'' JNone) of Inl e \<Rightarrow> Inl e | Inr path \<Rightarrow>
          (case source_reference_or_0 (dict_get kvs ''sourceReference'' JNone) of Inl e \<Rightarrow> Inl e | Inr source_reference \<Rightarrow>
          (case as_str (dict_get kvs ''presentationHint'' (JStr ''normal'')) of Inl e \<Rightarrow> Inl e | Inr presentation_hint \<Rightarrow>
          (case as_opt_str (dict_get kvs ''origin'' JNone) of Inl e \<Rightarrow> Inl e | Inr origin \<Rightarrow>
          (case py_iter (dict_get kvs ''sources'' (JList [])) of Inl e \<Rightarrow> Inl e | Inr ss \<Rightarrow>
          (case collect (map unpack_Source ss) of Inl e \<Rightarrow> Inl e | Inr sources \<Rightarrow>
          (case py_iter (dict_get kvs ''checksums'' (JList [])) of Inl e \<Rightarrow> Inl e | Inr cs \<Rightarrow>
          (case collect (map unpack_Checksum cs) of Inl e \<Rightarrow> Inl e | Inr checksums \<Rightarrow>
             Inr (Source name path source_reference presentation_hint origin sources
                    (dict_get kvs ''adapterData'' JNone) checksums))))))))))
      | _ \<Rightarrow> Inl AttributeError)"
  by pat_completeness auto
termination
proof (relation "measure size")
  show "wf (measure size)" by simp
next
  fix body :: json and kvs x2 x2a x2b x2c x2d ss s
  assume b: "body = JDict kvs" and it: "py_iter (dict_get kvs ''sources'' (JList [])) = Inr ss"
    and s: "s \<in> set ss"
  have key: "\<And>k v. map_of kvs k = Some v \<Longrightarrow> size v < size (JDict kvs)"
  proof -
    fix k v assume "map_of kvs k = Some v"
    then have "(k, v) \<in> set kvs" by (rule map_of_SomeD)
    then show "size v < size (JDict kvs)"
      by (induction kvs) auto
  qed
  have el: "\<And>xs x. x \<in> set xs \<Longrightarrow> size x < size (JList xs)"
  proof -
    fix xs :: "json list" and x assume "x \<in> set xs"
    then show "size x < size (JList xs)" by (induction xs) auto
  qed
  show "(s, body) \<in> measure size"
  proof (cases "map_of kvs ''sources''")
    case None
    then show ?thesis using it s by (simp add: dict_get_def py_iter_def)
  next
    case (Some v)
    have "size s \<le> size v"
      using it s Some el[of s] by (cases v) (auto simp: dict_get_def py_iter_def less_imp_le)
    then show ?thesis using key[OF Some] b by simp
  qed
qed


text \<open>
  \<open>Breakpoint.pack\<close> writes the key \<open>"source"\<close> always, with the value \<open>None\<close>
  when there is no source; \<open>Breakpoint.unpack\<close> calls \<open>Source.unpack(obj["source"])\<close>
  whenever the key is in the dictionary.
\<close>

definition pack_Breakpoint :: "Breakpoint \<Rightarrow> json" where
  "pack_Breakpoint b =
     JDict
       [(''id'', json_opt_int (bp_id b)),
        (''verified'', JBool (bp_verified b)),
        (''message'', json_opt_str (bp_message b)),
        (''source'', (case bp_source b of Some s \<Rightarrow> pack_Source s | None \<Rightarrow> JNone)),
        (''line'', json_opt_int (bp_line b)),
        (''column'', json_opt_int (bp_column b)),
        (''endLine'', json_opt_int (bp_end_line b)),
        (''endColumn'', json_opt_int (bp_end_column b)),
        (''instructionReference'', json_opt_str (bp_instruction_reference b)),
        (''offset'', json_opt_int (bp_offset b))]"

definition unpack_Breakpoint :: "json \<Rightarrow> error + Breakpoint" where
  "unpack_Breakpoint obj =
     (case obj of
        JDict kvs \<Rightarrow>
          (case as_opt_int (dict_get kvs ''id'' JNone) of Inl e \<Rightarrow> Inl e | Inr i \<Rightarrow>
          (case as_bool (dict_get kvs ''verified'' (JBool False)) of Inl e \<Rightarrow> Inl e | Inr verified \<Rightarrow>
          (case as_opt_str (dict_get kvs ''message'' JNone) of Inl e \<Rightarrow> Inl e | Inr message \<Rightarrow>
          (case (case map_of kvs ''source'' of
                   None \<Rightarrow> Inr None
                 | Some v \<Rightarrow> (case unpack_Source v of Inl e \<Rightarrow> Inl e | Inr s \<Rightarrow> Inr (Some s)))
           of Inl e \<Rightarrow> Inl e | Inr source \<Rightarrow>
          (case as_opt_int (dict_get kvs ''line'' JNone) of Inl e \<Rightarrow> Inl e | Inr line \<Rightarrow>
          (case as_opt_int (dict_get kvs ''column'' JNone) of Inl e \<Rightarrow> Inl e | Inr column \<Rightarrow>
          (case as_opt_int (dict_get kvs ''endLine'' JNone) of Inl e \<Rightarrow> Inl e | Inr end_line \<Rightarrow>
          (case as_opt_int (dict_get kvs ''endColumn'' JNone) of Inl e \<Rightarrow> Inl e | Inr end_column \<Rightarrow>
          (case as_opt_str (dict_get kvs ''instructionReference'' JNone) of Inl e \<Rightarrow> Inl e | Inr instruction_reference \<Rightarrow>
          (case as_opt_int (dict_get kvs ''offset'' JNone) of Inl e \<Rightarrow> Inl e | Inr offset \<Rightarrow>
             Inr \<lparr>bp_id = i, bp_verified = verified, bp_message = message, bp_source = source,
                  bp_line = line, bp_column = column, bp_end_line = end_line,
                  bp_end_column = end_column, bp_instruction_reference = instruction_reference,
                  bp_offset = offset\<rparr>))))))))))
      | _ \<Rightarrow> Inl AttributeError)"

text \<open>\<open>Breakpoint()\<close>: every field at its default.\<close>

definition default_Breakpoint :: Breakpoint where
  "default_Breakpoint =
     \<lparr>bp_id = None, bp_verified = False, bp_message = None, bp_source = None,
      bp_line = None, bp_column = None, bp_end_line = None, bp_end_column = None,
      bp_instruction_reference = None, bp_offset = None\<rparr>"


subsection \<open>Well-formed breakpoint dictionaries\<close>

text \<open>
  The keys of \<open>_breakpoints\<close> are distinct, as the keys of a dictionary are, and every
  key has been taken from \<open>_breakpoint_counter\<close>, so it is below the counter. The
  debugger starts in such a state and the two operations on breakpoints keep it.
\<close>

definition breakpoints_wf :: "AnsibleDebugger \<Rightarrow> bool" where
  "breakpoints_wf self =
     (distinct (map fst (breakpoints self))
      \<and> (\<forall>(i, b) \<in> set (breakpoints self). i < breakpoint_counter self))"

section \<open>Example values\<close>

definition example_source :: Source where
  "example_source = Source (Some ''tasks.yml'') (Some ''/play/tasks.yml'') 0 ''normal'' None [] JNone []"

definition example_sb :: "int \<Rightarrow> SourceBreakpoint" where
  "example_sb l =
     \<lparr>sb_line = l, sb_column = None, sb_condition = None, sb_hit_condition = None,
      sb_log_message = None\<rparr>"

definition example_request :: "int \<Rightarrow> int list \<Rightarrow> SetBreakpointsRequest" where
  "example_request sq ls =
     \<lparr>req_seq = sq, req_source = example_source, req_breakpoints = map example_sb ls,
      req_source_modified = False\<rparr>"


text \<open>The debugger as \<open>__init__\<close> leaves it, with a client connected.\<close>

definition connected_debugger :: AnsibleDebugger where
  "connected_debugger =
     \<lparr>connected = True, send_queue = [], breakpoints = [], breakpoint_counter = 1,
      source_info = Map.empty\<rparr>"

text \<open>
  The breakpoint that a request for line 10 of \<open>example_source\<close> registers while
  nothing is known about the file.
\<close>

definition example_bp :: Breakpoint where
  "example_bp =
     mk_Breakpoint 1 False
       (Some ''File has not been loaded by Ansible, cannot detect breakpoints yet.'')
       example_source (Some 10) None"

definition example_alb :: AnsibleLineBreakpoint where
  "example_alb =
     \<lparr>alb_id = 1, alb_source = example_source, alb_source_breakpoint = example_sb 10,
      alb_breakpoint = example_bp\<rparr>"

definition other_source :: Source where
  "other_source = Source (Some ''other.yml'') (Some ''/play/other.yml'') 0 ''normal'' None [] JNone []"

definition other_alb :: AnsibleLineBreakpoint where
  "other_alb =
     \<lparr>alb_id = 2, alb_source = other_source, alb_source_breakpoint = example_sb 4,
      alb_breakpoint = mk_Breakpoint 2 False
        (Some ''File has not been loaded by Ansible, cannot detect breakpoints yet.'')
        other_source (Some 4) None\<rparr>"

definition example_conditional_alb :: AnsibleLineBreakpoint where
  "example_conditional_alb =
     example_alb\<lparr>alb_source_breakpoint := (example_sb 10)\<lparr>sb_condition := Some ''missing_var == 1''\<rparr>\<rparr>"

definition two_paths_debugger :: AnsibleDebugger where
  "two_paths_debugger =
     connected_debugger\<lparr>breakpoints := [(1, example_alb), (2, other_alb)], breakpoint_counter := 3\<rparr>"

definition disconnected_debugger :: AnsibleDebugger where
  "disconnected_debugger = two_paths_debugger\<lparr>connected := False\<rparr>"

definition conditional_debugger :: AnsibleDebugger where
  "conditional_debugger =
     connected_debugger\<lparr>breakpoints := [(1, example_conditional_alb)], breakpoint_counter := 2\<rparr>"

definition example_task :: Task where
  "example_task = Task ''task-1'' True ''debug'' (Some (Task ''block-1'' False [] None))"

definition example_thread :: AnsibleThread where
  "example_thread =
     \<lparr>thr_id = 2, thr_host = Some ''host1'', thr_stack_frames = [1], stepping_type = None,
      stepping_task = None\<rparr>"




text \<open>The token as \<open>SocketCancellationToken.__init__\<close> leaves it.\<close>

definition new_token :: SocketCancellationToken where
  "new_token = \<lparr>cancel_funcs = [], cancel_id = 0, cancelled = False\<rparr>"

section \<open>The resolution computes what the specification describes\<close>

declare while_line_type_is_None.simps [simp del] while_end_line.simps [simp del]
  spec_scan_back.simps [simp del] spec_scan_fwd.simps [simp del] unpack_Source.simps [simp del]

lemma while_end_line_spec: "while_end_line V e = spec_scan_fwd V e"
proof (induction V e rule: while_end_line.induct)
  case (1 V e)
  show ?case
    apply (subst while_end_line.simps, subst spec_scan_fwd.simps)
    using 1 by (auto split: sum.splits option.splits)
qed

lemma while_back_spec:
  "py_index V s = Inr lt \<Longrightarrow>
   while_line_type_is_None V s lt =
     (case spec_scan_back V s of Inl e \<Rightarrow> Inl e
      | Inr s' \<Rightarrow> (case py_index V s' of Inr (Some t) \<Rightarrow> Inr (s', t) | _ \<Rightarrow> Inl IndexError))"
proof (induction V s lt rule: while_line_type_is_None.induct)
  case (1 V s lt)
  show ?case
  proof (cases lt)
    case None
    show ?thesis
    proof (cases "py_index V (s - 1)")
      case (Inl e)
      then show ?thesis using None "1.prems"
        by (subst while_line_type_is_None.simps, subst spec_scan_back.simps)
           (simp add: spec_scan_back.simps[of V "s - 1"])
    next
      case (Inr lt')
      from "1.IH"[OF None Inr Inr] show ?thesis using None "1.prems" Inr
        by (subst while_line_type_is_None.simps, subst spec_scan_back.simps) simp
    qed
  next
    case (Some t)
    then show ?thesis using "1.prems"
      by (subst while_line_type_is_None.simps, subst spec_scan_back.simps) simp
  qed
qed

lemma spec_scan_back_entry:
  "spec_scan_back V s = Inr s' \<Longrightarrow> \<exists>t. py_index V s' = Inr (Some t)"
proof (induction V s rule: spec_scan_back.induct)
  case (1 V s)
  then show ?case
    by (subst (asm) (2) spec_scan_back.simps) (auto split: sum.splits option.splits)
qed

lemma spec_scan_fwd_shift:
  "spec_scan_back V s0 = Inr s \<Longrightarrow> s0 < int (length V) \<Longrightarrow>
   spec_scan_fwd V (s + 1) = spec_scan_fwd V (s0 + 1)"
proof (induction V s0 rule: spec_scan_back.induct)
  case (1 V s0)
  show ?case
  proof (cases "py_index V s0")
    case (Inl e)
    then show ?thesis using "1.prems" by (simp add: spec_scan_back.simps[of V s0])
  next
    case (Inr entry)
    show ?thesis
    proof (cases entry)
      case None
      with Inr "1.prems" have b: "spec_scan_back V (s0 - 1) = Inr s"
        by (simp add: spec_scan_back.simps[of V s0])
      from "1.IH"[OF Inr None b] "1.prems" have "spec_scan_fwd V (s + 1) = spec_scan_fwd V s0"
        by simp
      also have "\<dots> = spec_scan_fwd V (s0 + 1)"
        using Inr None "1.prems" by (subst spec_scan_fwd.simps) simp
      finally show ?thesis .
    next
      case (Some t)
      with Inr "1.prems" show ?thesis by (simp add: spec_scan_back.simps[of V s0])
    qed
  qed
qed

lemma resolve_line_spec: "resolve_line V L = spec_resolve V L"
proof (cases "py_index V (min L (int (length V) - 1))")
  case (Inl e)
  then show ?thesis
    by (simp add: resolve_line_def spec_resolve_def Let_def
          spec_scan_back.simps[of V "min L (int (length V) - 1)"])
next
  case (Inr lt)
  let ?s0 = "min L (int (length V) - 1)"
  show ?thesis
  proof (cases "spec_scan_back V ?s0")
    case (Inl e)
    then show ?thesis using Inr while_back_spec[OF Inr]
      by (simp add: resolve_line_def spec_resolve_def Let_def)
  next
    case (Inr s)
    obtain t where t: "py_index V s = Inr (Some t)"
      using spec_scan_back_entry[OF Inr] by blast
    have sh: "spec_scan_fwd V (s + 1) = spec_scan_fwd V (?s0 + 1)"
      by (rule spec_scan_fwd_shift[OF Inr]) simp
    show ?thesis using \<open>py_index V ?s0 = Inr lt\<close> while_back_spec[OF \<open>py_index V ?s0 = Inr lt\<close>] Inr t sh
      by (simp add: resolve_line_def spec_resolve_def Let_def while_end_line_spec
            split: sum.splits prod.splits)
  qed
qed





text \<open>
  The scan back wraps round to the end of the list, as Python's negative indices do: for a
  line that is not negative, the algorithm returns as soon as the list has one entry that
  is not a continuation.
\<close>

lemma py_index_in_range:
  "- int (length xs) \<le> i \<Longrightarrow> i < int (length xs) \<Longrightarrow> \<exists>x. py_index xs i = Inr x"
  by (cases "0 \<le> i") (auto simp: py_index_def)

lemma spec_scan_back_wraps:
  "- int (length V) \<le> s0 \<Longrightarrow> s0 < int (length V) \<Longrightarrow>
   \<exists>j t. - int (length V) \<le> j \<and> j \<le> s0 \<and> py_index V j = Inr (Some t) \<Longrightarrow>
   \<exists>s. spec_scan_back V s0 = Inr s \<and> - int (length V) \<le> s \<and> s \<le> s0"
proof (induction "nat (s0 + int (length V))" arbitrary: s0 rule: less_induct)
  case less
  from py_index_in_range[OF less.prems(1,2)] obtain entry where idx: "py_index V s0 = Inr entry"
    by blast
  show ?case
  proof (cases entry)
    case (Some t)
    with idx less.prems(1) show ?thesis
      by (subst spec_scan_back.simps) simp
  next
    case None
    from less.prems(3) obtain j t where
      j: "- int (length V) \<le> j" "j \<le> s0" "py_index V j = Inr (Some t)" by blast
    from j(3) idx None have "j \<noteq> s0" by auto
    with j(2) have j': "j \<le> s0 - 1" by simp
    with j(1) have lo: "- int (length V) \<le> s0 - 1" by simp
    have m: "nat (s0 - 1 + int (length V)) < nat (s0 + int (length V))"
      using lo by simp
    have ex: "\<exists>j t. - int (length V) \<le> j \<and> j \<le> s0 - 1 \<and> py_index V j = Inr (Some t)"
      using j(1,3) j' by blast
    from less.hyps[OF m lo _ ex] less.prems(2)
    obtain s where s: "spec_scan_back V (s0 - 1) = Inr s" "- int (length V) \<le> s" "s \<le> s0 - 1"
      by auto
    show ?thesis
      using idx None s by (subst spec_scan_back.simps) auto
  qed
qed

lemma spec_scan_fwd_returns:
  "- int (length V) \<le> e \<Longrightarrow> \<exists>e'. spec_scan_fwd V e = Inr e'"
proof (induction V e rule: spec_scan_fwd.induct)
  case (1 V e)
  show ?case
  proof (cases "e < int (length V)")
    case False
    then show ?thesis by (subst spec_scan_fwd.simps) simp
  next
    case True
    from py_index_in_range[OF "1.prems" True] obtain entry where idx: "py_index V e = Inr entry"
      by blast
    show ?thesis
    proof (cases entry)
      case None
      from "1.IH"[OF True idx[unfolded None]] "1.prems"
      obtain e' where "spec_scan_fwd V (e + 1) = Inr e'" by auto
      then show ?thesis using True idx None by (subst spec_scan_fwd.simps) auto
    next
      case (Some t)
      then show ?thesis using True idx by (subst spec_scan_fwd.simps) auto
    qed
  qed
qed

lemma spec_resolve_returns:
  assumes L: "0 \<le> L" and n: "n < length V" and e: "V ! n \<noteq> None"
  shows "\<exists>x. spec_resolve V L = Inr x"
proof -
  let ?s0 = "min L (int (length V) - 1)"
  from L n have r: "- int (length V) \<le> ?s0" "?s0 < int (length V)" by auto
  from e obtain t where t: "V ! n = Some t" by auto
  have "py_index V (int n - int (length V)) = Inr (Some t)"
    using n t by (simp add: py_index_def)
  moreover have "- int (length V) \<le> int n - int (length V)" "int n - int (length V) \<le> ?s0"
    using n L by auto
  ultimately have ex: "\<exists>j t. - int (length V) \<le> j \<and> j \<le> ?s0 \<and> py_index V j = Inr (Some t)"
    by blast
  from spec_scan_back_wraps[OF r ex]
  obtain s where s: "spec_scan_back V ?s0 = Inr s" "- int (length V) \<le> s" "s \<le> ?s0" by blast
  from spec_scan_fwd_returns[of V "s + 1"] s(2)
  obtain e' where e': "spec_scan_fwd V (s + 1) = Inr e'" by auto
  from s(3) r(2) have "s < int (length V)" by simp
  from py_index_in_range[OF s(2) this] obtain entry where idx: "py_index V s = Inr entry"
    by blast
  show ?thesis using s(1) e' idx by (cases "entry = Some 0") (auto simp: spec_resolve_def)
qed

section \<open>Stopping on a breakpoint\<close>

lemma find_bp_matches:
  "find (bp_matches path line) bs = Some b \<Longrightarrow> b \<in> set bs \<and> bp_matches path line b"
  by (auto simp: find_Some_iff)

lemma process_task_breakpoint_reason:
  assumes "process_task debugger ev thread task task_path = (Inr (Some (BREAKPOINT, d)), debugger')"
  shows "\<exists>path line b. task_path = Some (path, line)
           \<and> check_condition ev (get_breakpoint debugger path line) = Inr (Some b)
           \<and> stepping_type thread \<noteq> Some StepOut"
  using assms
  by (auto simp: process_task_def stopped_kwargs_def split: option.splits sum.splits prod.splits if_splits)

lemma check_condition_Some:
  "check_condition ev lb = Inr (Some b) \<Longrightarrow>
     lb = Some b \<and>
     (case sb_condition (alb_source_breakpoint b) of
        None \<Rightarrow> True
      | Some c \<Rightarrow> c = [] \<or> ev c = Inr True)"
  by (auto simp: check_condition_def split: option.splits sum.splits if_splits)

text \<open>
  Claim C10. While no client is connected, \<open>get_breakpoint\<close> returns \<open>None\<close> for
  every path and line, and no task boundary stops with the reason "breakpoint". When it
  returns a breakpoint, a client is connected, the breakpoint is a registered one, its
  path is the queried path, its resolved line, if it has one, is at most the queried line,
  and its resolved end line, if it has one, is at least the queried line.
\<close>

theorem get_breakpoint_connected_and_in_range:
  "(\<not> connected self \<longrightarrow>
      get_breakpoint self path line = None
      \<and> (\<forall>ev thread task d self'.
            process_task self ev thread task (Some (path, line)) \<noteq> (Inr (Some (BREAKPOINT, d)), self')))
   \<and> (get_breakpoint self path line = Some b \<longrightarrow>
        connected self
        \<and> b \<in> snd ` set (breakpoints self)
        \<and> alb_path b = path
        \<and> (\<forall>l. bp_line (alb_breakpoint b) = Some l \<longrightarrow> l \<le> line)
        \<and> (\<forall>e. bp_end_line (alb_breakpoint b) = Some e \<longrightarrow> line \<le> e))"
proof (intro conjI impI)
  assume nc: "\<not> connected self"
  then show "get_breakpoint self path line = None" by (simp add: get_breakpoint_def)
  show "\<forall>ev thread task d self'.
          process_task self ev thread task (Some (path, line)) \<noteq> (Inr (Some (BREAKPOINT, d)), self')"
  proof (intro allI notI)
    fix ev thread task d self'
    assume "process_task self ev thread task (Some (path, line)) = (Inr (Some (BREAKPOINT, d)), self')"
    from process_task_breakpoint_reason[OF this] obtain b' where
      "check_condition ev (get_breakpoint self path line) = Inr (Some b')" by auto
    from check_condition_Some[OF this] nc show False by (simp add: get_breakpoint_def)
  qed
next
  assume g: "get_breakpoint self path line = Some b"
  then show c: "connected self" by (simp add: get_breakpoint_def split: if_splits)
  from g c have "find (bp_matches path line) (map snd (breakpoints self)) = Some b"
    by (simp add: get_breakpoint_def)
  from find_bp_matches[OF this] have m: "b \<in> snd ` set (breakpoints self)" "bp_matches path line b"
    by auto
  show "b \<in> snd ` set (breakpoints self)" by (rule m)
  show "alb_path b = path" using m(2) by (simp add: bp_matches_def)
  show "\<forall>l. bp_line (alb_breakpoint b) = Some l \<longrightarrow> l \<le> line"
    using m(2) by (auto simp: bp_matches_def)
  show "\<forall>e. bp_end_line (alb_breakpoint b) = Some e \<longrightarrow> line \<le> e"
    using m(2) by (auto simp: bp_matches_def)
qed

text \<open>
  Claim C9. When the breakpoint found for the task has a condition and its evaluation
  raises \<open>AnsibleError\<close>, the breakpoint is dropped as if the condition had evaluated
  to false: \<open>process_task\<close> does what it does for a false condition, it returns without
  an exception, and the thread does not stop with the reason "breakpoint".
\<close>

theorem failed_condition_is_false:
  assumes "get_breakpoint debugger path line = Some b"
    and "sb_condition (alb_source_breakpoint b) = Some c" and "c \<noteq> []"
    and "ev c = Inl AnsibleError"
  shows "check_condition ev (get_breakpoint debugger path line) = Inr None
         \<and> process_task debugger ev thread task (Some (path, line))
             = process_task debugger (ev(c := Inr False)) thread task (Some (path, line))
         \<and> (\<exists>r debugger'. process_task debugger ev thread task (Some (path, line)) = (Inr r, debugger')
               \<and> (\<forall>d. r \<noteq> Some (BREAKPOINT, d)))"
proof -
  have cc: "check_condition ev (get_breakpoint debugger path line) = Inr None"
    using assms by (simp add: check_condition_def)
  have cc': "check_condition (ev(c := Inr False)) (get_breakpoint debugger path line) = Inr None"
    using assms by (simp add: check_condition_def)
  have eq: "process_task debugger ev thread task (Some (path, line))
             = process_task debugger (ev(c := Inr False)) thread task (Some (path, line))"
    by (simp add: process_task_def cc cc')
  have "\<exists>r debugger'. process_task debugger ev thread task (Some (path, line)) = (Inr r, debugger')
               \<and> (\<forall>d. r \<noteq> Some (BREAKPOINT, d))"
    by (auto simp: process_task_def cc stopped_kwargs_def split: option.splits)
  with cc eq show ?thesis by blast
qed


section \<open>Setting breakpoints\<close>


lemma loop_send_queue:
  "send_queue (snd (set_breakpoints_loop msg si sbs self acc)) = send_queue self
   \<and> source_info (snd (set_breakpoints_loop msg si sbs self acc)) = source_info self
   \<and> connected (snd (set_breakpoints_loop msg si sbs self acc)) = connected self"
  by (induction sbs arbitrary: self acc) (auto simp: Let_def split: sum.splits)




lemma alb_path_source: "alb_source b = src \<Longrightarrow> alb_path b = (case src_path src of None \<Rightarrow> [] | Some p \<Rightarrow> p)"
  by (simp add: alb_path_def)







lemma loop_not_loaded:
  assumes "\<not> req_source_modified msg" "si = None \<or> si = Some []"
  shows "fst (set_breakpoints_loop msg si sbs self acc) =
           Inr (acc @ map (\<lambda>(i, sb). mk_Breakpoint (breakpoint_counter self + int i) False
                  (Some ''File has not been loaded by Ansible, cannot detect breakpoints yet.'')
                  (req_source msg) (Some (sb_line sb)) None) (enumerate 0 sbs))"
proof (induction sbs arbitrary: self acc)
  case Nil
  show ?case by simp
next
  case (Cons sb sbs)
  have bp: "SetBreakpoints_bp msg si (breakpoint_counter self) sb =
        Inr (mk_Breakpoint (breakpoint_counter self) False
               (Some ''File has not been loaded by Ansible, cannot detect breakpoints yet.'')
               (req_source msg) (Some (sb_line sb)) None)"
    using assms(2) by (auto simp: SetBreakpoints_bp_def)
  have sh: "map (\<lambda>(i, sb). mk_Breakpoint (breakpoint_counter self + 1 + int i) False
                  (Some ''File has not been loaded by Ansible, cannot detect breakpoints yet.'')
                  (req_source msg) (Some (sb_line sb)) None) (enumerate 0 sbs)
          = map (\<lambda>(i, sb). mk_Breakpoint (breakpoint_counter self + int i) False
                  (Some ''File has not been loaded by Ansible, cannot detect breakpoints yet.'')
                  (req_source msg) (Some (sb_line sb)) None) (enumerate (Suc 0) sbs)"
    by (simp add: enumerate_Suc_eq[of 0] map_prod_def split_def comp_def ac_simps)
  show ?case
    using assms(1) bp by (simp add: Let_def Cons.IH sh)
qed

text \<open>
  Claim C5, as amended. For a SetBreakpoints request that is not flagged as modified
  source and whose path has no line information (no entry, or an empty list), the handler
  returns, and the response holds, for each requested breakpoint in order, a breakpoint
  that is unverified, has the message "File has not been loaded by Ansible, cannot detect
  breakpoints yet.", carries the requested line as its line, and has no end line.
\<close>

theorem not_loaded_response:
  assumes "source_info self (case src_path (req_source msg) of None \<Rightarrow> [] | Some p \<Rightarrow> p) = None
           \<or> source_info self (case src_path (req_source msg) of None \<Rightarrow> [] | Some p \<Rightarrow> p) = Some []"
    and "\<not> req_source_modified msg"
  shows "\<exists>self'. process_message_SetBreakpoints msg self = (Inr (), self')
           \<and> send_queue self' = send_queue self @
               [SetBreakpointsResponse (req_seq msg)
                  (map (\<lambda>(i, sb).
                     \<lparr>bp_id = Some (breakpoint_counter self + int i), bp_verified = False,
                      bp_message = Some ''File has not been loaded by Ansible, cannot detect breakpoints yet.'',
                      bp_source = Some (req_source msg),
                      bp_line = Some (sb_line sb), bp_column = None, bp_end_line = None,
                      bp_end_column = None, bp_instruction_reference = None, bp_offset = None\<rparr>)
                    (enumerate 0 (req_breakpoints msg)))]"
proof -
  let ?P = "case src_path (req_source msg) of None \<Rightarrow> [] | Some p \<Rightarrow> p"
  let ?s1 = "self\<lparr>breakpoints := filter (\<lambda>(bpid, b). alb_path b \<noteq> ?P) (breakpoints self)\<rparr>"
  let ?res = "set_breakpoints_loop msg (source_info self ?P) (req_breakpoints msg) ?s1 []"
  from loop_not_loaded[OF assms(2) assms(1), of "req_breakpoints msg" ?s1 "[]"]
  have f: "fst ?res = Inr (map (\<lambda>(i, sb). mk_Breakpoint (breakpoint_counter self + int i) False
                  (Some ''File has not been loaded by Ansible, cannot detect breakpoints yet.'')
                  (req_source msg) (Some (sb_line sb)) None) (enumerate 0 (req_breakpoints msg)))"
    by simp
  have q: "send_queue (snd ?res) = send_queue self"
    using loop_send_queue[of msg "source_info self ?P" "req_breakpoints msg" ?s1 "[]"] by simp
  obtain r s2 where rs: "?res = (r, s2)" by (cases ?res)
  with f q show ?thesis
    by (simp add: process_message_SetBreakpoints_def Let_def send_def mk_Breakpoint_def)
qed

section \<open>Learning a line\<close>

lemma reresolve_loop_keys:
  "reresolve_loop path V bs = (r, bs', evs) \<Longrightarrow> map fst bs' = map fst bs"
  by (induction bs arbitrary: r bs' evs)
     (auto split: if_splits sum.splits prod.splits)

lemma reresolve_loop_ok:
  "reresolve_loop path V bs = (None, bs', evs) \<Longrightarrow>
     bs' = map (\<lambda>(k, b). (k, if alb_path b \<noteq> path then b
                             else (case reresolve_breakpoint V b of Inr (b', ev) \<Rightarrow> b' | Inl e \<Rightarrow> b))) bs
     \<and> evs = concat (map (\<lambda>(k, b). if alb_path b \<noteq> path then []
                             else (case reresolve_breakpoint V b of Inr (b', ev) \<Rightarrow> ev | Inl e \<Rightarrow> [])) bs)
     \<and> (\<forall>(k, b) \<in> set bs. alb_path b = path \<longrightarrow> (\<exists>x. reresolve_breakpoint V b = Inr x))"
  by (induction bs arbitrary: bs' evs)
     (auto split: if_splits sum.splits prod.splits)

lemma reresolve_loop_total:
  "(\<forall>(k, b) \<in> set bs. alb_path b = path \<longrightarrow> (\<exists>x. reresolve_breakpoint V b = Inr x))
   \<Longrightarrow> fst (reresolve_loop path V bs) = None"
  by (induction bs) (auto split: if_splits sum.splits prod.splits)

lemma reresolve_breakpoint_spec:
  "reresolve_breakpoint V b =
     (case spec_resolve V (sb_line (alb_source_breakpoint b)) of
        Inl err \<Rightarrow> Inl err
      | Inr (v, m, s, e) \<Rightarrow>
          if bp_verified (alb_breakpoint b) = v \<and> bp_line (alb_breakpoint b) = Some s
             \<and> bp_end_line (alb_breakpoint b) = Some e
          then Inr (b, [])
          else Inr (b\<lparr>alb_breakpoint :=
                    \<lparr>bp_id = Some (alb_id b), bp_verified = v, bp_message = m,
                      bp_source = Some (alb_source b), bp_line = Some s, bp_column = None,
                      bp_end_line = Some e, bp_end_column = None,
                      bp_instruction_reference = None, bp_offset = None\<rparr>\<rparr>,
                    [BreakpointEvent ''changed''
                    \<lparr>bp_id = Some (alb_id b), bp_verified = v, bp_message = m,
                      bp_source = Some (alb_source b), bp_line = Some s, bp_column = None,
                      bp_end_line = Some e, bp_end_column = None,
                      bp_instruction_reference = None, bp_offset = None\<rparr>]))"
  by (auto simp: reresolve_breakpoint_def resolve_line_spec[symmetric] mk_Breakpoint_def Let_def
        split: sum.splits prod.splits)

lemma changed_events_spec:
  "(\<lambda>(k, b). if alb_path b \<noteq> path then []
       else (case reresolve_breakpoint V' b of Inr (b', ev) \<Rightarrow> ev | Inl e \<Rightarrow> []))
   = (\<lambda>(k, b).
      if alb_path b \<noteq> path then []
      else (case spec_resolve V' (sb_line (alb_source_breakpoint b)) of
              Inl err \<Rightarrow> []
            | Inr (v, m, s, e) \<Rightarrow>
                if bp_verified (alb_breakpoint b) = v \<and> bp_line (alb_breakpoint b) = Some s
                   \<and> bp_end_line (alb_breakpoint b) = Some e
                then []
                else [BreakpointEvent ''changed''
                        \<lparr>bp_id = Some (alb_id b), bp_verified = v, bp_message = m,
                                 bp_source = Some (alb_source b), bp_line = Some s, bp_column = None,
                                 bp_end_line = Some e, bp_end_column = None,
                                 bp_instruction_reference = None, bp_offset = None\<rparr>]))"
proof (rule ext)
  fix x :: "'a \<times> AnsibleLineBreakpoint"
  obtain k b where x: "x = (k, b)" by (cases x)
  show "(case x of (k, b) \<Rightarrow> if alb_path b \<noteq> path then []
       else (case reresolve_breakpoint V' b of Inr (b', ev) \<Rightarrow> ev | Inl e \<Rightarrow> []))
   = (\<lambda>(k, b).
      if alb_path b \<noteq> path then []
      else (case spec_resolve V' (sb_line (alb_source_breakpoint b)) of
              Inl err \<Rightarrow> []
            | Inr (v, m, s, e) \<Rightarrow>
                if bp_verified (alb_breakpoint b) = v \<and> bp_line (alb_breakpoint b) = Some s
                   \<and> bp_end_line (alb_breakpoint b) = Some e
                then []
                else [BreakpointEvent ''changed''
                        \<lparr>bp_id = Some (alb_id b), bp_verified = v, bp_message = m,
                                 bp_source = Some (alb_source b), bp_line = Some s, bp_column = None,
                                 bp_end_line = Some e, bp_end_column = None,
                                 bp_instruction_reference = None, bp_offset = None\<rparr>])) x"
    unfolding x
    by (cases "spec_resolve V' (sb_line (alb_source_breakpoint b))")
       (auto simp: reresolve_breakpoint_spec)
qed

lemma updated_breakpoints_spec:
  "(\<lambda>(k, b). (k, if alb_path b \<noteq> path then b
       else (case reresolve_breakpoint V' b of Inr (b', ev) \<Rightarrow> b' | Inl e \<Rightarrow> b)))
   = (\<lambda>(k, b).
      (k, if alb_path b \<noteq> path then b
          else (case spec_resolve V' (sb_line (alb_source_breakpoint b)) of
                  Inl err \<Rightarrow> b
                | Inr (v, m, s, e) \<Rightarrow>
                    if bp_verified (alb_breakpoint b) = v \<and> bp_line (alb_breakpoint b) = Some s
                       \<and> bp_end_line (alb_breakpoint b) = Some e
                    then b
                    else b\<lparr>alb_breakpoint :=
                        \<lparr>bp_id = Some (alb_id b), bp_verified = v, bp_message = m,
                                 bp_source = Some (alb_source b), bp_line = Some s, bp_column = None,
                                 bp_end_line = Some e, bp_end_column = None,
                                 bp_instruction_reference = None, bp_offset = None\<rparr>\<rparr>)))"
proof (rule ext)
  fix x :: "'a \<times> AnsibleLineBreakpoint"
  obtain k b where x: "x = (k, b)" by (cases x)
  show "(case x of (k, b) \<Rightarrow> (k, if alb_path b \<noteq> path then b
       else (case reresolve_breakpoint V' b of Inr (b', ev) \<Rightarrow> b' | Inl e \<Rightarrow> b)))
   = (\<lambda>(k, b).
      (k, if alb_path b \<noteq> path then b
          else (case spec_resolve V' (sb_line (alb_source_breakpoint b)) of
                  Inl err \<Rightarrow> b
                | Inr (v, m, s, e) \<Rightarrow>
                    if bp_verified (alb_breakpoint b) = v \<and> bp_line (alb_breakpoint b) = Some s
                       \<and> bp_end_line (alb_breakpoint b) = Some e
                    then b
                    else b\<lparr>alb_breakpoint :=
                        \<lparr>bp_id = Some (alb_id b), bp_verified = v, bp_message = m,
                                 bp_source = Some (alb_source b), bp_line = Some s, bp_column = None,
                                 bp_end_line = Some e, bp_end_column = None,
                                 bp_instruction_reference = None, bp_offset = None\<rparr>\<rparr>))) x"
    unfolding x
    by (cases "spec_resolve V' (sb_line (alb_source_breakpoint b))")
       (auto simp: reresolve_breakpoint_spec)
qed

lemma reresolves_iff_spec:
  "(\<exists>x. reresolve_breakpoint V' b = Inr x)
     = (\<exists>x. spec_resolve V' (sb_line (alb_source_breakpoint b)) = Inr x)"
  by (cases "spec_resolve V' (sb_line (alb_source_breakpoint b))")
     (auto simp: reresolve_breakpoint_spec)

lemma extend_with_None_ok:
  assumes "line < max_list" "line < sys_maxsize"
  shows "extend_with_None max_list fl (1 + line - int (length fl))
         = Inr (fl @ replicate (nat (1 + line - int (length fl))) None)"
  using assms by (auto simp: extend_with_None_def)

lemma py_setitem_extended:
  assumes "0 \<le> line"
  shows "py_setitem (fl @ replicate (nat (1 + line - int (length fl))) None) line v
         = Inr ((fl @ replicate (nat (1 + line - int (length fl))) None)[nat line := v])"
proof -
  have "line < int (length (fl @ replicate (nat (1 + line - int (length fl))) None))"
    by simp
  with assms show ?thesis by (simp add: py_setitem_def)
qed

lemma register_unfold:
  assumes "extend_with_None max_list
             (case source_info self path of None \<Rightarrow> [Some 0] | Some fl \<Rightarrow> fl)
             (1 + line - int (length (case source_info self path of None \<Rightarrow> [Some 0] | Some fl \<Rightarrow> fl)))
           = Inr V0"
    and "py_setitem V0 line (Some bp_type) = Inr V'"
    and "reresolve_loop path V' (breakpoints self) = (r2, bs, evs)"
  shows "register_path_breakpoint max_list path line bp_type self
         = ((case r2 of None \<Rightarrow> Inr () | Some e \<Rightarrow> Inl e),
            self\<lparr>source_info := (source_info self)(path \<mapsto> V'), breakpoints := bs,
                 send_queue := send_queue self @ evs\<rparr>)"
  using assms by (simp add: register_path_breakpoint_def Let_def)

lemma register_ok:
  assumes run: "register_path_breakpoint max_list path line bp_type self = (Inr (), self')"
  shows "\<exists>V' bs evs.
           V' \<noteq> []
           \<and> reresolve_loop path V' (breakpoints self) = (None, bs, evs)
           \<and> source_info self' = (source_info self)(path \<mapsto> V')
           \<and> send_queue self' = send_queue self @ evs
           \<and> breakpoints self' = bs"
proof -
  let ?fl0 = "case source_info self path of None \<Rightarrow> [Some 0] | Some fl \<Rightarrow> fl"
  from run obtain V0 where ext: "extend_with_None max_list ?fl0 (1 + line - int (length ?fl0)) = Inr V0"
    by (cases "extend_with_None max_list ?fl0 (1 + line - int (length ?fl0))")
       (simp_all add: register_path_breakpoint_def Let_def)
  from run ext obtain V' where set: "py_setitem V0 line (Some bp_type) = Inr V'"
    by (cases "py_setitem V0 line (Some bp_type)")
       (simp_all add: register_path_breakpoint_def Let_def)
  have ne: "V' \<noteq> []"
    using set by (auto simp: py_setitem_def split: if_splits)
  obtain r2 bs evs where loop: "reresolve_loop path V' (breakpoints self) = (r2, bs, evs)"
    by (cases "reresolve_loop path V' (breakpoints self)")
  note u = register_unfold[OF ext set loop]
  from run u have r2: "r2 = None" by (cases r2) simp_all
  from run u have s': "self' = self\<lparr>source_info := (source_info self)(path \<mapsto> V'),
                        breakpoints := bs, send_queue := send_queue self @ evs\<rparr>"
    by simp
  show ?thesis
    by (intro exI[of _ V'] exI[of _ bs] exI[of _ evs]) (simp add: ne loop[unfolded r2] s')
qed

lemma register_characterised:
  assumes run: "register_path_breakpoint max_list path line bp_type self = (Inr (), self')"
  shows "\<exists>V'. V' \<noteq> []
           \<and> source_info self' = (source_info self)(path \<mapsto> V')
           \<and> (\<forall>(k, b) \<in> set (breakpoints self).
                 alb_path b = path \<longrightarrow>
                 (\<exists>x. spec_resolve V' (sb_line (alb_source_breakpoint b)) = Inr x))
           \<and> send_queue self' = send_queue self @
               concat (map (\<lambda>(k, b).
                          if alb_path b \<noteq> path then []
                          else (case spec_resolve V' (sb_line (alb_source_breakpoint b)) of
                                  Inl err \<Rightarrow> []
                                | Inr (v, m, s, e) \<Rightarrow>
                                    if bp_verified (alb_breakpoint b) = v \<and> bp_line (alb_breakpoint b) = Some s
                                       \<and> bp_end_line (alb_breakpoint b) = Some e
                                    then []
                                    else [BreakpointEvent ''changed''
                                            \<lparr>bp_id = Some (alb_id b), bp_verified = v, bp_message = m,
                                                     bp_source = Some (alb_source b), bp_line = Some s, bp_column = None,
                                                     bp_end_line = Some e, bp_end_column = None,
                                                     bp_instruction_reference = None, bp_offset = None\<rparr>]))
                 (breakpoints self))
           \<and> breakpoints self' =
               map (\<lambda>(k, b).
                      (k, if alb_path b \<noteq> path then b
                          else (case spec_resolve V' (sb_line (alb_source_breakpoint b)) of
                                  Inl err \<Rightarrow> b
                                | Inr (v, m, s, e) \<Rightarrow>
                                    if bp_verified (alb_breakpoint b) = v \<and> bp_line (alb_breakpoint b) = Some s
                                       \<and> bp_end_line (alb_breakpoint b) = Some e
                                    then b
                                    else b\<lparr>alb_breakpoint :=
                                        \<lparr>bp_id = Some (alb_id b), bp_verified = v, bp_message = m,
                                                 bp_source = Some (alb_source b), bp_line = Some s, bp_column = None,
                                                 bp_end_line = Some e, bp_end_column = None,
                                                 bp_instruction_reference = None, bp_offset = None\<rparr>\<rparr>)))
                 (breakpoints self)"
proof -
  from register_ok[OF run] obtain V' bs evs where
    all: "V' \<noteq> []
           \<and> reresolve_loop path V' (breakpoints self) = (None, bs, evs)
           \<and> source_info self' = (source_info self)(path \<mapsto> V')
           \<and> send_queue self' = send_queue self @ evs
           \<and> breakpoints self' = bs"
    by (elim exE)
  note ne = all[THEN conjunct1]
  note loop = all[THEN conjunct2, THEN conjunct1]
  note si = all[THEN conjunct2, THEN conjunct2, THEN conjunct1]
  note sq = all[THEN conjunct2, THEN conjunct2, THEN conjunct2, THEN conjunct1]
  note bb = all[THEN conjunct2, THEN conjunct2, THEN conjunct2, THEN conjunct2]
  note ok3 = reresolve_loop_ok[OF loop, unfolded changed_events_spec updated_breakpoints_spec reresolves_iff_spec]
  note b1 = ok3[THEN conjunct1]
  note b2 = ok3[THEN conjunct2, THEN conjunct1]
  note b3 = ok3[THEN conjunct2, THEN conjunct2]
  show ?thesis
    apply (rule exI[of _ V'])
    apply (intro conjI)
        apply (rule ne)
       apply (rule si)
      apply (rule b3)
     apply (simp only: sq b2)
    apply (simp only: bb b1)
    done
qed

lemma register_returns:
  assumes l0: "0 \<le> line" and l1: "line < max_list" and l2: "line < sys_maxsize"
    and nn: "\<forall>(k, b) \<in> set (breakpoints self).
               alb_path b = path \<longrightarrow> 0 \<le> sb_line (alb_source_breakpoint b)"
  shows "fst (register_path_breakpoint max_list path line bp_type self) = Inr ()
         \<and> source_info (snd (register_path_breakpoint max_list path line bp_type self))
           = (source_info self)(path \<mapsto>
               ((case source_info self path of None \<Rightarrow> [Some 0] | Some fl \<Rightarrow> fl)
                @ replicate (nat (1 + line
                    - int (length (case source_info self path of None \<Rightarrow> [Some 0] | Some fl \<Rightarrow> fl)))) None)
               [nat line := Some bp_type])"
proof -
  let ?fl0 = "case source_info self path of None \<Rightarrow> [Some 0] | Some fl \<Rightarrow> fl"
  let ?ext = "?fl0 @ replicate (nat (1 + line - int (length ?fl0))) None"
  let ?V' = "?ext[nat line := Some bp_type]"
  have ext: "extend_with_None max_list ?fl0 (1 + line - int (length ?fl0)) = Inr ?ext"
    by (rule extend_with_None_ok[OF l1 l2])
  have set: "py_setitem ?ext line (Some bp_type) = Inr ?V'"
    by (rule py_setitem_extended[OF l0])
  have len: "nat line < length ?V'"
    using l0 by simp
  have ent: "?V' ! nat line \<noteq> None"
    using len by simp
  have one: "\<exists>x. reresolve_breakpoint ?V' b = Inr x"
    if "(k, b) \<in> set (breakpoints self)" "alb_path b = path" for k b
  proof -
    from that nn have "0 \<le> sb_line (alb_source_breakpoint b)" by auto
    from spec_resolve_returns[OF this len ent]
    have "\<exists>x. spec_resolve ?V' (sb_line (alb_source_breakpoint b)) = Inr x" .
    then show ?thesis by (simp only: reresolves_iff_spec)
  qed
  have "\<forall>(k, b) \<in> set (breakpoints self). alb_path b = path \<longrightarrow>
            (\<exists>x. reresolve_breakpoint ?V' b = Inr x)"
    using one by blast
  from reresolve_loop_total[OF this] have l: "fst (reresolve_loop path ?V' (breakpoints self)) = None" .
  obtain r2 bs evs where loop: "reresolve_loop path ?V' (breakpoints self) = (r2, bs, evs)"
    by (cases "reresolve_loop path ?V' (breakpoints self)")
  with l have r2: "r2 = None" by simp
  note u = register_unfold[OF ext set loop]
  show ?thesis unfolding u r2 by simp
qed

lemma concat_map_member:
  "x \<in> set xs \<Longrightarrow> e \<in> set (f x) \<Longrightarrow> e \<in> set (concat (map f xs))"
  by auto

lemma learned_line_10:
  "([Some (0::int)] @ replicate (nat (1 + 10 - int (length [Some (0::int)]))) None)[nat 10 := Some 1]
   = [Some 0, None, None, None, None, None, None, None, None, None, Some 1]"
  by (simp add: numeral_eq_Suc)

lemma learned_line_resolves:
  "spec_resolve [Some 0, None, None, None, None, None, None, None, None, None, Some 1] 10
     = Inr (True, None, 10, 10)"
  by (simp add: spec_resolve_def spec_scan_back.simps spec_scan_fwd.simps py_index_def)

text \<open>
  Claim C4, as amended. When the line is not negative and a list of that length can be
  allocated, and no breakpoint of the path requests a negative line,
  \<open>register_path_breakpoint max_list path line bp_type\<close> returns. The line list of
  the path is then the old one (or \<open>[0]\<close>), extended with continuation entries up to
  the line and with the entry of the line set; every breakpoint of the path has a
  resolution against that list; the events sent are, in the order of the breakpoints, one
  \<open>BreakpointEvent\<close> with reason "changed" for each breakpoint of the path whose
  (verified, line, end line) differs from its resolution, carrying the breakpoint's id
  and source and the resolution's verified flag, message, line and end line, and none for
  the others; exactly those breakpoints hold that new breakpoint afterwards, all others
  are unchanged. In particular, on a path with no line information, learning line 10 as
  a breakpoint start sends, for an unverified breakpoint requested at line 10, a changed
  event with verified true, no message, line 10 and end line 10.
\<close>

theorem learn_reresolves_and_emits_changed:
  assumes l0: "0 \<le> line" and l1: "line < max_list" and l2: "line < sys_maxsize"
    and nn: "\<forall>(k, b) \<in> set (breakpoints self).
               alb_path b = path \<longrightarrow> 0 \<le> sb_line (alb_source_breakpoint b)"
  shows "\<exists>self' V'.
           register_path_breakpoint max_list path line bp_type self = (Inr (), self')
           \<and> V' = ((case source_info self path of None \<Rightarrow> [Some 0] | Some fl \<Rightarrow> fl)
              @ replicate (nat (1 + line - int (length (case source_info self path of None \<Rightarrow> [Some 0] | Some fl \<Rightarrow> fl)))) None)
             [nat line := Some bp_type]
           \<and> source_info self' = (source_info self)(path \<mapsto> V')
           \<and> (\<forall>(k, b) \<in> set (breakpoints self).
                 alb_path b = path \<longrightarrow>
                 (\<exists>x. spec_resolve V' (sb_line (alb_source_breakpoint b)) = Inr x))
           \<and> send_queue self' = send_queue self @
               concat (map (\<lambda>(k, b).
                          if alb_path b \<noteq> path then []
                          else (case spec_resolve V' (sb_line (alb_source_breakpoint b)) of
                                  Inl err \<Rightarrow> []
                                | Inr (v, m, s, e) \<Rightarrow>
                                    if bp_verified (alb_breakpoint b) = v \<and> bp_line (alb_breakpoint b) = Some s
                                       \<and> bp_end_line (alb_breakpoint b) = Some e
                                    then []
                                    else [BreakpointEvent ''changed''
                                            \<lparr>bp_id = Some (alb_id b), bp_verified = v, bp_message = m,
                                                     bp_source = Some (alb_source b), bp_line = Some s, bp_column = None,
                                                     bp_end_line = Some e, bp_end_column = None,
                                                     bp_instruction_reference = None, bp_offset = None\<rparr>]))
                 (breakpoints self))
           \<and> breakpoints self' =
               map (\<lambda>(k, b).
                      (k, if alb_path b \<noteq> path then b
                          else (case spec_resolve V' (sb_line (alb_source_breakpoint b)) of
                                  Inl err \<Rightarrow> b
                                | Inr (v, m, s, e) \<Rightarrow>
                                    if bp_verified (alb_breakpoint b) = v \<and> bp_line (alb_breakpoint b) = Some s
                                       \<and> bp_end_line (alb_breakpoint b) = Some e
                                    then b
                                    else b\<lparr>alb_breakpoint :=
                                        \<lparr>bp_id = Some (alb_id b), bp_verified = v, bp_message = m,
                                                 bp_source = Some (alb_source b), bp_line = Some s, bp_column = None,
                                                 bp_end_line = Some e, bp_end_column = None,
                                                 bp_instruction_reference = None, bp_offset = None\<rparr>\<rparr>)))
                 (breakpoints self)
           \<and> (source_info self path = None \<and> line = 10 \<and> bp_type = 1 \<longrightarrow>
                (\<forall>(k, b) \<in> set (breakpoints self).
                   alb_path b = path \<and> sb_line (alb_source_breakpoint b) = 10
                   \<and> \<not> bp_verified (alb_breakpoint b) \<longrightarrow>
                   BreakpointEvent ''changed''
                     \<lparr>bp_id = Some (alb_id b), bp_verified = True, bp_message = None,
                     bp_source = Some (alb_source b), bp_line = Some 10, bp_column = None,
                     bp_end_line = Some 10, bp_end_column = None,
                     bp_instruction_reference = None, bp_offset = None\<rparr>
                   \<in> set (send_queue self')))"
proof -
  let ?V = "((case source_info self path of None \<Rightarrow> [Some 0] | Some fl \<Rightarrow> fl)
              @ replicate (nat (1 + line - int (length (case source_info self path of None \<Rightarrow> [Some 0] | Some fl \<Rightarrow> fl)))) None)
             [nat line := Some bp_type]"
  obtain r self' where run: "register_path_breakpoint max_list path line bp_type self = (r, self')"
    by (cases "register_path_breakpoint max_list path line bp_type self")
  from register_returns[OF l0 l1 l2 nn, of bp_type] run
  have r: "r = Inr ()" and si: "source_info self' = (source_info self)(path \<mapsto> ?V)"
    by simp_all
  note run' = run[unfolded r]
  from register_characterised[OF run'] obtain V' where
    all: "V' \<noteq> []
           \<and> source_info self' = (source_info self)(path \<mapsto> V')
           \<and> (\<forall>(k, b) \<in> set (breakpoints self).
                 alb_path b = path \<longrightarrow>
                 (\<exists>x. spec_resolve V' (sb_line (alb_source_breakpoint b)) = Inr x))
           \<and> send_queue self' = send_queue self @
               concat (map (\<lambda>(k, b).
                          if alb_path b \<noteq> path then []
                          else (case spec_resolve V' (sb_line (alb_source_breakpoint b)) of
                                  Inl err \<Rightarrow> []
                                | Inr (v, m, s, e) \<Rightarrow>
                                    if bp_verified (alb_breakpoint b) = v \<and> bp_line (alb_breakpoint b) = Some s
                                       \<and> bp_end_line (alb_breakpoint b) = Some e
                                    then []
                                    else [BreakpointEvent ''changed''
                                            \<lparr>bp_id = Some (alb_id b), bp_verified = v, bp_message = m,
                                                     bp_source = Some (alb_source b), bp_line = Some s, bp_column = None,
                                                     bp_end_line = Some e, bp_end_column = None,
                                                     bp_instruction_reference = None, bp_offset = None\<rparr>]))
                 (breakpoints self))
           \<and> breakpoints self' =
               map (\<lambda>(k, b).
                      (k, if alb_path b \<noteq> path then b
                          else (case spec_resolve V' (sb_line (alb_source_breakpoint b)) of
                                  Inl err \<Rightarrow> b
                                | Inr (v, m, s, e) \<Rightarrow>
                                    if bp_verified (alb_breakpoint b) = v \<and> bp_line (alb_breakpoint b) = Some s
                                       \<and> bp_end_line (alb_breakpoint b) = Some e
                                    then b
                                    else b\<lparr>alb_breakpoint :=
                                        \<lparr>bp_id = Some (alb_id b), bp_verified = v, bp_message = m,
                                                 bp_source = Some (alb_source b), bp_line = Some s, bp_column = None,
                                                 bp_end_line = Some e, bp_end_column = None,
                                                 bp_instruction_reference = None, bp_offset = None\<rparr>\<rparr>)))
                 (breakpoints self)"
    by (elim exE)
  note si' = all[THEN conjunct2, THEN conjunct1]
  have V': "V' = ?V"
    using si si' by (metis map_upd_eqD1)
  note res = all[THEN conjunct2, THEN conjunct2, THEN conjunct1]
  note sq = all[THEN conjunct2, THEN conjunct2, THEN conjunct2, THEN conjunct1]
  note bb = all[THEN conjunct2, THEN conjunct2, THEN conjunct2, THEN conjunct2]
  have sc: "source_info self path = None \<and> line = 10 \<and> bp_type = 1 \<longrightarrow>
                (\<forall>(k, b) \<in> set (breakpoints self).
                   alb_path b = path \<and> sb_line (alb_source_breakpoint b) = 10
                   \<and> \<not> bp_verified (alb_breakpoint b) \<longrightarrow>
                   BreakpointEvent ''changed''
                     \<lparr>bp_id = Some (alb_id b), bp_verified = True, bp_message = None,
                     bp_source = Some (alb_source b), bp_line = Some 10, bp_column = None,
                     bp_end_line = Some 10, bp_end_column = None,
                     bp_instruction_reference = None, bp_offset = None\<rparr>
                   \<in> set (send_queue self'))"
  proof
    assume a: "source_info self path = None \<and> line = 10 \<and> bp_type = 1"
    have V10: "V' = [Some 0, None, None, None, None, None, None, None, None, None, Some 1]"
      unfolding V' using a learned_line_10 by simp
    let ?f = "(\<lambda>(k, b).
                 if alb_path b \<noteq> path then []
                 else (case spec_resolve V' (sb_line (alb_source_breakpoint b)) of
                         Inl err \<Rightarrow> []
                       | Inr (v, m, s, e) \<Rightarrow>
                           if bp_verified (alb_breakpoint b) = v \<and> bp_line (alb_breakpoint b) = Some s
                              \<and> bp_end_line (alb_breakpoint b) = Some e
                           then []
                           else [BreakpointEvent ''changed''
                                   \<lparr>bp_id = Some (alb_id b), bp_verified = v, bp_message = m,
                                            bp_source = Some (alb_source b), bp_line = Some s, bp_column = None,
                                            bp_end_line = Some e, bp_end_column = None,
                                            bp_instruction_reference = None, bp_offset = None\<rparr>]))"
    have "BreakpointEvent ''changed''
            \<lparr>bp_id = Some (alb_id b), bp_verified = True, bp_message = None,
                     bp_source = Some (alb_source b), bp_line = Some 10, bp_column = None,
                     bp_end_line = Some 10, bp_end_column = None,
                     bp_instruction_reference = None, bp_offset = None\<rparr>
          \<in> set (send_queue self')"
      if mem: "(k, b) \<in> set (breakpoints self)" and p: "alb_path b = path"
        and l: "sb_line (alb_source_breakpoint b) = 10"
        and nv: "\<not> bp_verified (alb_breakpoint b)" for k b
    proof -
      have "BreakpointEvent ''changed''
              \<lparr>bp_id = Some (alb_id b), bp_verified = True, bp_message = None,
                     bp_source = Some (alb_source b), bp_line = Some 10, bp_column = None,
                     bp_end_line = Some 10, bp_end_column = None,
                     bp_instruction_reference = None, bp_offset = None\<rparr>
            \<in> set (?f (k, b))"
        using p nv by (simp add: l V10 learned_line_resolves)
      with mem have "BreakpointEvent ''changed''
              \<lparr>bp_id = Some (alb_id b), bp_verified = True, bp_message = None,
                     bp_source = Some (alb_source b), bp_line = Some 10, bp_column = None,
                     bp_end_line = Some 10, bp_end_column = None,
                     bp_instruction_reference = None, bp_offset = None\<rparr>
            \<in> set (concat (map ?f (breakpoints self)))"
        by (rule concat_map_member[where f = ?f and x = "(k, b)"])
      then show ?thesis unfolding sq by simp
    qed
    then show "\<forall>(k, b) \<in> set (breakpoints self).
                   alb_path b = path \<and> sb_line (alb_source_breakpoint b) = 10
                   \<and> \<not> bp_verified (alb_breakpoint b) \<longrightarrow>
                   BreakpointEvent ''changed''
                     \<lparr>bp_id = Some (alb_id b), bp_verified = True, bp_message = None,
                     bp_source = Some (alb_source b), bp_line = Some 10, bp_column = None,
                     bp_end_line = Some 10, bp_end_column = None,
                     bp_instruction_reference = None, bp_offset = None\<rparr>
                   \<in> set (send_queue self')"
      by blast
  qed
  show ?thesis
    apply (rule exI[of _ self'])
    apply (rule exI[of _ V'])
    apply (intro conjI)
          apply (rule run')
         apply (rule V')
        apply (rule si')
       apply (rule res)
      apply (rule sq)
     apply (rule bb)
    apply (rule sc)
    done
qed

section \<open>The resolution in the handler and after learning a line\<close>







section \<open>The claims at concrete inputs\<close>

lemma connected_debugger_wf: "breakpoints_wf connected_debugger"
  by (simp add: breakpoints_wf_def connected_debugger_def)

lemma register_keeps_wf:
  assumes "breakpoints_wf self"
  shows "breakpoints_wf (snd (register_path_breakpoint max_list path line bp_type self))"
proof (cases "extend_with_None max_list
    (case source_info self path of None \<Rightarrow> [Some 0] | Some fl \<Rightarrow> fl)
    (1 + line - int (length (case source_info self path of None \<Rightarrow> [Some 0] | Some fl \<Rightarrow> fl)))")
  case (Inl e)
  then show ?thesis using assms
    by (simp add: register_path_breakpoint_def Let_def breakpoints_wf_def)
next
  case ext: (Inr V0)
  show ?thesis
  proof (cases "py_setitem V0 line (Some bp_type)")
    case (Inl e)
    then show ?thesis using assms ext
      by (simp add: register_path_breakpoint_def Let_def breakpoints_wf_def)
  next
    case set: (Inr V')
    obtain r bs evs where loop: "reresolve_loop path V' (breakpoints self) = (r, bs, evs)"
      by (cases "reresolve_loop path V' (breakpoints self)")
    have res: "breakpoints (snd (register_path_breakpoint max_list path line bp_type self)) = bs"
      "breakpoint_counter (snd (register_path_breakpoint max_list path line bp_type self))
         = breakpoint_counter self"
      by (simp_all add: register_unfold[OF ext set loop])
    from reresolve_loop_keys[OF loop] have k: "map fst bs = map fst (breakpoints self)" .
    have d: "distinct (map fst bs)"
      using assms by (simp add: k breakpoints_wf_def)
    have lt: "i < breakpoint_counter self" if "(i, b) \<in> set bs" for i b
    proof -
      from that have "i \<in> set (map fst bs)" by force
      then have "i \<in> set (map fst (breakpoints self))" by (simp only: k)
      then obtain b' where "(i, b') \<in> set (breakpoints self)" by auto
      with assms show ?thesis by (auto simp: breakpoints_wf_def)
    qed
    show ?thesis
      unfolding breakpoints_wf_def res using d lt by blast
  qed
qed

lemma first_request_state:
  "process_message_SetBreakpoints (example_request 1 [10]) connected_debugger
   = (Inr (), connected_debugger\<lparr>breakpoints := [(1, example_alb)], breakpoint_counter := 2,
        send_queue := [SetBreakpointsResponse 1 [example_bp]]\<rparr>)"
  by (simp add: process_message_SetBreakpoints_def example_request_def connected_debugger_def
        example_source_def Let_def SetBreakpoints_bp_def example_alb_def example_bp_def
        example_sb_def send_def)

lemma example_alb_path: "alb_path example_alb = ''/play/tasks.yml''"
  by (simp add: alb_path_def example_alb_def example_source_def)


lemma example_alb_resolved:
  "bp_line (alb_breakpoint example_alb) = Some 10"
  "bp_end_line (alb_breakpoint example_alb) = None"
  "\<not> bp_verified (alb_breakpoint example_alb)"
  by (simp_all add: example_alb_def example_bp_def mk_Breakpoint_def)

lemma example_alb_matches: "bp_matches ''/play/tasks.yml'' 12 example_alb"
  by (simp add: bp_matches_def example_alb_path example_alb_resolved)

lemma get_breakpoint_two_paths:
  "get_breakpoint two_paths_debugger ''/play/tasks.yml'' 12 = Some example_alb"
  by (simp add: get_breakpoint_def two_paths_debugger_def connected_debugger_def
        example_alb_matches)

theorem get_breakpoint_connected_and_in_range_witness:
  "\<not> connected disconnected_debugger
   \<and> get_breakpoint disconnected_debugger ''/play/tasks.yml'' 12 = None
   \<and> get_breakpoint two_paths_debugger ''/play/tasks.yml'' 12 = Some example_alb
   \<and> connected two_paths_debugger
   \<and> example_alb \<in> snd ` set (breakpoints two_paths_debugger)
   \<and> alb_path example_alb = ''/play/tasks.yml''
   \<and> bp_line (alb_breakpoint example_alb) = Some 10"
proof -
  have nc: "\<not> connected disconnected_debugger"
    by (simp add: disconnected_debugger_def)
  have l: "bp_line (alb_breakpoint example_alb) = Some 10"
    by (rule example_alb_resolved)
  from get_breakpoint_connected_and_in_range[of disconnected_debugger "''/play/tasks.yml''" 12 example_alb]
    get_breakpoint_connected_and_in_range[of two_paths_debugger "''/play/tasks.yml''" 12 example_alb]
  show ?thesis using nc l get_breakpoint_two_paths by blast
qed






lemma get_breakpoint_conditional:
  "get_breakpoint conditional_debugger ''/play/tasks.yml'' 10 = Some example_conditional_alb"
proof -
  have "bp_matches ''/play/tasks.yml'' 10 example_conditional_alb"
    by (simp add: bp_matches_def example_conditional_alb_def alb_path_def example_alb_def
          example_source_def example_bp_def mk_Breakpoint_def)
  then show ?thesis
    by (simp add: get_breakpoint_def conditional_debugger_def connected_debugger_def)
qed

theorem failed_condition_is_false_witness:
  "get_breakpoint conditional_debugger ''/play/tasks.yml'' 10 = Some example_conditional_alb
   \<and> sb_condition (alb_source_breakpoint example_conditional_alb) = Some ''missing_var == 1''
   \<and> ''missing_var == 1'' \<noteq> []
   \<and> check_condition (\<lambda>c. Inl AnsibleError)
        (get_breakpoint conditional_debugger ''/play/tasks.yml'' 10) = Inr None
   \<and> process_task conditional_debugger (\<lambda>c. Inl AnsibleError) example_thread example_task
        (Some (''/play/tasks.yml'', 10))
      = process_task conditional_debugger ((\<lambda>c. Inl AnsibleError)(''missing_var == 1'' := Inr False))
          example_thread example_task (Some (''/play/tasks.yml'', 10))"
proof -
  have c: "sb_condition (alb_source_breakpoint example_conditional_alb) = Some ''missing_var == 1''"
    by (simp add: example_conditional_alb_def)
  have ne: "''missing_var == 1'' \<noteq> []" by simp
  have ev: "(\<lambda>c :: string. Inl AnsibleError :: error + bool) ''missing_var == 1'' = Inl AnsibleError"
    by simp
  from failed_condition_is_false[OF get_breakpoint_conditional c ne ev,
      of example_thread example_task]
  show ?thesis using get_breakpoint_conditional c by simp
qed


text \<open>
  Claim C5 as the specification states it fails: the breakpoint of the response carries
  the requested line, and its message is not the one the specification gives.
\<close>

theorem not_loaded_response_carries_line:
  "source_info connected_debugger ''/play/tasks.yml'' = None
   \<and> \<not> req_source_modified (example_request 1 [10])
   \<and> send_queue (snd (process_message_SetBreakpoints (example_request 1 [10]) connected_debugger))
       = [SetBreakpointsResponse 1 [example_bp]]
   \<and> bp_line example_bp = Some 10
   \<and> bp_message example_bp
       = Some ''File has not been loaded by Ansible, cannot detect breakpoints yet.''
   \<and> bp_message example_bp
       \<noteq> Some ''File has not been loaded yet, cannot detect breakpoints.''"
proof -
  have a: "source_info connected_debugger ''/play/tasks.yml'' = None"
    by (simp add: connected_debugger_def)
  have b: "\<not> req_source_modified (example_request 1 [10])"
    by (simp add: example_request_def)
  have c: "send_queue (snd (process_message_SetBreakpoints (example_request 1 [10]) connected_debugger))
       = [SetBreakpointsResponse 1 [example_bp]]"
    by (simp add: first_request_state)
  have d: "bp_line example_bp = Some 10
   \<and> bp_message example_bp
       = Some ''File has not been loaded by Ansible, cannot detect breakpoints yet.''
   \<and> bp_message example_bp
       \<noteq> Some ''File has not been loaded yet, cannot detect breakpoints.''"
    by (simp add: example_bp_def mk_Breakpoint_def)
  from a b c d show ?thesis by blast
qed

theorem not_loaded_response_witness:
  "source_info connected_debugger ''/play/tasks.yml'' = None
   \<and> \<not> req_source_modified (example_request 1 [10])
   \<and> (\<exists>self'. process_message_SetBreakpoints (example_request 1 [10]) connected_debugger
                  = (Inr (), self')
         \<and> send_queue self' =
             [SetBreakpointsResponse 1
                [\<lparr>bp_id = Some 1, bp_verified = False,
                  bp_message = Some ''File has not been loaded by Ansible, cannot detect breakpoints yet.'',
                  bp_source = Some example_source,
                  bp_line = Some 10, bp_column = None, bp_end_line = None,
                  bp_end_column = None, bp_instruction_reference = None, bp_offset = None\<rparr>]])"
proof -
  have si: "source_info connected_debugger
              (case src_path (req_source (example_request 1 [10])) of None \<Rightarrow> [] | Some p \<Rightarrow> p) = None
            \<or> source_info connected_debugger
              (case src_path (req_source (example_request 1 [10])) of None \<Rightarrow> [] | Some p \<Rightarrow> p) = Some []"
    by (simp add: connected_debugger_def)
  have nm: "\<not> req_source_modified (example_request 1 [10])"
    by (simp add: example_request_def)
  have s0: "source_info connected_debugger ''/play/tasks.yml'' = None"
    by (simp add: connected_debugger_def)
  from not_loaded_response[OF si nm] obtain self' where
    a: "process_message_SetBreakpoints (example_request 1 [10]) connected_debugger = (Inr (), self')"
    and b: "send_queue self' = send_queue connected_debugger @
               [SetBreakpointsResponse (req_seq (example_request 1 [10]))
                  (map (\<lambda>(i, sb).
                     \<lparr>bp_id = Some (breakpoint_counter connected_debugger + int i), bp_verified = False,
                      bp_message = Some ''File has not been loaded by Ansible, cannot detect breakpoints yet.'',
                      bp_source = Some (req_source (example_request 1 [10])),
                      bp_line = Some (sb_line sb), bp_column = None, bp_end_line = None,
                      bp_end_column = None, bp_instruction_reference = None, bp_offset = None\<rparr>)
                    (enumerate 0 (req_breakpoints (example_request 1 [10]))))]"
    by blast
  have "send_queue self' =
             [SetBreakpointsResponse 1
                [\<lparr>bp_id = Some 1, bp_verified = False,
                  bp_message = Some ''File has not been loaded by Ansible, cannot detect breakpoints yet.'',
                  bp_source = Some example_source,
                  bp_line = Some 10, bp_column = None, bp_end_line = None,
                  bp_end_column = None, bp_instruction_reference = None, bp_offset = None\<rparr>]]"
    unfolding b by (simp add: connected_debugger_def example_request_def example_sb_def)
  with a s0 nm show ?thesis by blast
qed

lemma sb_line_example [simp]: "sb_line (example_sb l) = l"
  by (simp add: example_sb_def)












lemma example_alb_fields:
  "alb_id example_alb = 1" "alb_source example_alb = example_source"
  "sb_line (alb_source_breakpoint example_alb) = 10"
  "bp_line (alb_breakpoint example_alb) = Some 10"
  "bp_end_line (alb_breakpoint example_alb) = None"
  "\<not> bp_verified (alb_breakpoint example_alb)"
  by (simp_all add: example_alb_def example_bp_def mk_Breakpoint_def)

lemma first_request_learn:
  "register_path_breakpoint 1000 ''/play/tasks.yml'' 10 1
     (snd (process_message_SetBreakpoints (example_request 1 [10]) connected_debugger))
   = (Inr (),
      (snd (process_message_SetBreakpoints (example_request 1 [10]) connected_debugger))\<lparr>
        source_info := [''/play/tasks.yml'' \<mapsto> [Some 0, None, None, None, None, None, None, None, None, None, Some 1]],
        breakpoints := [(1, example_alb\<lparr>alb_breakpoint :=
                             \<lparr>bp_id = Some (1), bp_verified = True, bp_message = None,
                               bp_source = Some (example_source), bp_line = Some 10, bp_column = None,
                               bp_end_line = Some 10, bp_end_column = None,
                               bp_instruction_reference = None, bp_offset = None\<rparr>\<rparr>)],
        send_queue := [SetBreakpointsResponse 1
                         [\<lparr>bp_id = Some (1), bp_verified = False, bp_message = Some ''File has not been loaded by Ansible, cannot detect breakpoints yet.'',
                            bp_source = Some (example_source), bp_line = Some 10, bp_column = None,
                            bp_end_line = None, bp_end_column = None,
                            bp_instruction_reference = None, bp_offset = None\<rparr>],
                       BreakpointEvent ''changed''
                         \<lparr>bp_id = Some (1), bp_verified = True, bp_message = None,
                           bp_source = Some (example_source), bp_line = Some 10, bp_column = None,
                           bp_end_line = Some 10, bp_end_column = None,
                           bp_instruction_reference = None, bp_offset = None\<rparr>]\<rparr>)"
proof -
  define s1 where "s1 = (snd (process_message_SetBreakpoints (example_request 1 [10]) connected_debugger))"
  have s1: "s1 = connected_debugger\<lparr>breakpoints := [(1, example_alb)], breakpoint_counter := 2,
        send_queue := [SetBreakpointsResponse 1 [example_bp]]\<rparr>"
    by (simp add: s1_def first_request_state)
  have st: "breakpoints s1 = [(1, example_alb)]"
    "send_queue s1 = [SetBreakpointsResponse 1
                         [\<lparr>bp_id = Some (1), bp_verified = False, bp_message = Some ''File has not been loaded by Ansible, cannot detect breakpoints yet.'',
                            bp_source = Some (example_source), bp_line = Some 10, bp_column = None,
                            bp_end_line = None, bp_end_column = None,
                            bp_instruction_reference = None, bp_offset = None\<rparr>]]"
    "source_info s1 ''/play/tasks.yml'' = None"
    "source_info s1 = Map.empty"
    by (simp_all add: s1 connected_debugger_def example_bp_def mk_Breakpoint_def)
  have ext: "extend_with_None 1000 [Some (0::int)] 10
             = Inr [Some 0, None, None, None, None, None, None, None, None, None, None]"
    by (simp add: extend_with_None_def sys_maxsize_def numeral_eq_Suc)
  have set: "py_setitem [Some (0::int), None, None, None, None, None, None, None, None, None, None]
               10 (Some 1) = Inr [Some 0, None, None, None, None, None, None, None, None, None, Some 1]"
    by (simp add: py_setitem_def numeral_eq_Suc)
  have re: "reresolve_breakpoint [Some 0, None, None, None, None, None, None, None, None, None, Some 1] example_alb
            = Inr (example_alb\<lparr>alb_breakpoint :=
                             \<lparr>bp_id = Some (1), bp_verified = True, bp_message = None,
                               bp_source = Some (example_source), bp_line = Some 10, bp_column = None,
                               bp_end_line = Some 10, bp_end_column = None,
                               bp_instruction_reference = None, bp_offset = None\<rparr>\<rparr>,
                   [BreakpointEvent ''changed''
                         \<lparr>bp_id = Some (1), bp_verified = True, bp_message = None,
                           bp_source = Some (example_source), bp_line = Some 10, bp_column = None,
                           bp_end_line = Some 10, bp_end_column = None,
                           bp_instruction_reference = None, bp_offset = None\<rparr>])"
    by (simp add: reresolve_breakpoint_spec example_alb_fields learned_line_resolves)
  have loop: "reresolve_loop ''/play/tasks.yml'' [Some 0, None, None, None, None, None, None, None, None, None, Some 1] [(1, example_alb)]
              = (None, [(1, example_alb\<lparr>alb_breakpoint :=
                             \<lparr>bp_id = Some (1), bp_verified = True, bp_message = None,
                               bp_source = Some (example_source), bp_line = Some 10, bp_column = None,
                               bp_end_line = Some 10, bp_end_column = None,
                               bp_instruction_reference = None, bp_offset = None\<rparr>\<rparr>)],
                 [BreakpointEvent ''changed''
                         \<lparr>bp_id = Some (1), bp_verified = True, bp_message = None,
                           bp_source = Some (example_source), bp_line = Some 10, bp_column = None,
                           bp_end_line = Some 10, bp_end_column = None,
                           bp_instruction_reference = None, bp_offset = None\<rparr>])"
    by (simp add: example_alb_path re)
  have "register_path_breakpoint 1000 ''/play/tasks.yml'' 10 1 s1
   = (Inr (),
      s1\<lparr>
        source_info := [''/play/tasks.yml'' \<mapsto> [Some 0, None, None, None, None, None, None, None, None, None, Some 1]],
        breakpoints := [(1, example_alb\<lparr>alb_breakpoint :=
                             \<lparr>bp_id = Some (1), bp_verified = True, bp_message = None,
                               bp_source = Some (example_source), bp_line = Some 10, bp_column = None,
                               bp_end_line = Some 10, bp_end_column = None,
                               bp_instruction_reference = None, bp_offset = None\<rparr>\<rparr>)],
        send_queue := [SetBreakpointsResponse 1
                         [\<lparr>bp_id = Some (1), bp_verified = False, bp_message = Some ''File has not been loaded by Ansible, cannot detect breakpoints yet.'',
                            bp_source = Some (example_source), bp_line = Some 10, bp_column = None,
                            bp_end_line = None, bp_end_column = None,
                            bp_instruction_reference = None, bp_offset = None\<rparr>],
                       BreakpointEvent ''changed''
                         \<lparr>bp_id = Some (1), bp_verified = True, bp_message = None,
                           bp_source = Some (example_source), bp_line = Some 10, bp_column = None,
                           bp_end_line = Some 10, bp_end_column = None,
                           bp_instruction_reference = None, bp_offset = None\<rparr>]\<rparr>)"
    by (simp add: register_path_breakpoint_def Let_def st ext set loop
          del: reresolve_loop.simps)
  then show ?thesis unfolding s1_def .
qed

theorem learn_reresolves_and_emits_changed_witness:
  "(0::int) \<le> 10 \<and> (10::int) < 1000 \<and> 10 < sys_maxsize
   \<and> fst (process_message_SetBreakpoints (example_request 1 [10]) connected_debugger) = Inr ()
   \<and> source_info (snd (process_message_SetBreakpoints (example_request 1 [10]) connected_debugger))
       ''/play/tasks.yml'' = None
   \<and> breakpoints (snd (process_message_SetBreakpoints (example_request 1 [10]) connected_debugger))
       = [(1, example_alb)]
   \<and> alb_path example_alb = ''/play/tasks.yml''
   \<and> sb_line (alb_source_breakpoint example_alb) = 10
   \<and> \<not> bp_verified (alb_breakpoint example_alb)
   \<and> fst (register_path_breakpoint 1000 ''/play/tasks.yml'' 10 1
            (snd (process_message_SetBreakpoints (example_request 1 [10]) connected_debugger)))
       = Inr ()
   \<and> source_info (snd (register_path_breakpoint 1000 ''/play/tasks.yml'' 10 1
            (snd (process_message_SetBreakpoints (example_request 1 [10]) connected_debugger))))
       ''/play/tasks.yml'' = Some [Some 0, None, None, None, None, None, None, None, None, None, Some 1]
   \<and> breakpoints (snd (register_path_breakpoint 1000 ''/play/tasks.yml'' 10 1
            (snd (process_message_SetBreakpoints (example_request 1 [10]) connected_debugger))))
       = [(1, example_alb\<lparr>alb_breakpoint :=
                 \<lparr>bp_id = Some (1), bp_verified = True, bp_message = None,
                   bp_source = Some (example_source), bp_line = Some 10, bp_column = None,
                   bp_end_line = Some 10, bp_end_column = None,
                   bp_instruction_reference = None, bp_offset = None\<rparr>\<rparr>)]
   \<and> send_queue (snd (register_path_breakpoint 1000 ''/play/tasks.yml'' 10 1
            (snd (process_message_SetBreakpoints (example_request 1 [10]) connected_debugger))))
       = [SetBreakpointsResponse 1
            [\<lparr>bp_id = Some (1), bp_verified = False, bp_message = Some ''File has not been loaded by Ansible, cannot detect breakpoints yet.'',
               bp_source = Some (example_source), bp_line = Some 10, bp_column = None,
               bp_end_line = None, bp_end_column = None,
               bp_instruction_reference = None, bp_offset = None\<rparr>],
          BreakpointEvent ''changed''
            \<lparr>bp_id = Some (1), bp_verified = True, bp_message = None,
              bp_source = Some (example_source), bp_line = Some 10, bp_column = None,
              bp_end_line = Some 10, bp_end_column = None,
              bp_instruction_reference = None, bp_offset = None\<rparr>]"
proof -
  define s1 where "s1 = (snd (process_message_SetBreakpoints (example_request 1 [10]) connected_debugger))"
  have s1: "s1 = connected_debugger\<lparr>breakpoints := [(1, example_alb)], breakpoint_counter := 2,
        send_queue := [SetBreakpointsResponse 1 [example_bp]]\<rparr>"
    by (simp add: s1_def first_request_state)
  have si: "source_info s1 ''/play/tasks.yml'' = None"
    by (simp add: s1 connected_debugger_def)
  have bs: "breakpoints s1 = [(1, example_alb)]" by (simp add: s1)
  have l0: "(0::int) \<le> 10" and l1: "(10::int) < 1000" and l2: "10 < sys_maxsize"
    by (simp_all add: sys_maxsize_def)
  have nn: "\<forall>(k, b) \<in> set (breakpoints s1).
               alb_path b = ''/play/tasks.yml'' \<longrightarrow> 0 \<le> sb_line (alb_source_breakpoint b)"
    by (simp add: bs example_alb_fields)
  from learn_reresolves_and_emits_changed[OF l0 l1 l2 nn, of 1]
  obtain self' where run: "register_path_breakpoint 1000 ''/play/tasks.yml'' 10 1 s1 = (Inr (), self')"
    by blast
  have ok: "fst (register_path_breakpoint 1000 ''/play/tasks.yml'' 10 1 s1) = Inr ()"
    using run by simp
  have fr: "fst (process_message_SetBreakpoints (example_request 1 [10]) connected_debugger) = Inr ()"
    by (simp add: first_request_state)
  note fl = first_request_learn[folded s1_def]
  show ?thesis
    unfolding s1_def[symmetric]
    using l0 l1 l2 fr si bs example_alb_path example_alb_fields(3,6) ok
    by (simp add: fl)
qed

text \<open>
  Claim C4 as the specification states it does not hold. A client asks for breakpoints at
  the lines -100 and 10 of a file that has not been loaded: both are registered,
  unverified. Learning line 10 of the file then raises \<open>IndexError\<close> at the first of
  them (\<open>file_lines[-100]\<close> on a list of 11 entries), so the breakpoint at line 10 is
  not re-resolved and no changed event is sent.
\<close>

theorem learn_raises_on_negative_breakpoint_line:
  "fst (process_message_SetBreakpoints (example_request 1 [-100, 10]) connected_debugger) = Inr ()
   \<and> source_info (snd (process_message_SetBreakpoints (example_request 1 [-100, 10]) connected_debugger))
       ''/play/tasks.yml'' = None
   \<and> map (\<lambda>(k, b). (k, alb_path b, sb_line (alb_source_breakpoint b),
                      bp_verified (alb_breakpoint b), bp_line (alb_breakpoint b),
                      bp_end_line (alb_breakpoint b)))
       (breakpoints (snd (process_message_SetBreakpoints (example_request 1 [-100, 10]) connected_debugger)))
       = [(1, ''/play/tasks.yml'', -100, False, Some (-100), None),
          (2, ''/play/tasks.yml'', 10, False, Some 10, None)]
   \<and> fst (register_path_breakpoint 1000 ''/play/tasks.yml'' 10 1
            (snd (process_message_SetBreakpoints (example_request 1 [-100, 10]) connected_debugger)))
       = Inl IndexError
   \<and> breakpoints (snd (register_path_breakpoint 1000 ''/play/tasks.yml'' 10 1
            (snd (process_message_SetBreakpoints (example_request 1 [-100, 10]) connected_debugger))))
       = breakpoints (snd (process_message_SetBreakpoints (example_request 1 [-100, 10]) connected_debugger))
   \<and> send_queue (snd (register_path_breakpoint 1000 ''/play/tasks.yml'' 10 1
            (snd (process_message_SetBreakpoints (example_request 1 [-100, 10]) connected_debugger))))
       = send_queue (snd (process_message_SetBreakpoints (example_request 1 [-100, 10]) connected_debugger))"
proof -
  define sn where "sn = (snd (process_message_SetBreakpoints (example_request 1 [-100, 10]) connected_debugger))"
  let ?b1 = "\<lparr>alb_id = 1, alb_source = example_source, alb_source_breakpoint = example_sb (-100),
               alb_breakpoint = mk_Breakpoint 1 False (Some ''File has not been loaded by Ansible, cannot detect breakpoints yet.'') example_source (Some (-100)) None\<rparr>"
  let ?b2 = "\<lparr>alb_id = 2, alb_source = example_source, alb_source_breakpoint = example_sb 10,
               alb_breakpoint = mk_Breakpoint 2 False (Some ''File has not been loaded by Ansible, cannot detect breakpoints yet.'') example_source (Some 10) None\<rparr>"
  have pm: "process_message_SetBreakpoints (example_request 1 [-100, 10]) connected_debugger
   = (Inr (), connected_debugger\<lparr>breakpoints := [(1, ?b1), (2, ?b2)], breakpoint_counter := 3,
        send_queue := [SetBreakpointsResponse 1
           [mk_Breakpoint 1 False (Some ''File has not been loaded by Ansible, cannot detect breakpoints yet.'') example_source (Some (-100)) None,
            mk_Breakpoint 2 False (Some ''File has not been loaded by Ansible, cannot detect breakpoints yet.'') example_source (Some 10) None]]\<rparr>)"
    by (simp add: process_message_SetBreakpoints_def example_request_def connected_debugger_def
        example_source_def Let_def SetBreakpoints_bp_def example_sb_def send_def)
  have sn: "sn = connected_debugger\<lparr>breakpoints := [(1, ?b1), (2, ?b2)], breakpoint_counter := 3,
        send_queue := [SetBreakpointsResponse 1
           [mk_Breakpoint 1 False (Some ''File has not been loaded by Ansible, cannot detect breakpoints yet.'') example_source (Some (-100)) None,
            mk_Breakpoint 2 False (Some ''File has not been loaded by Ansible, cannot detect breakpoints yet.'') example_source (Some 10) None]]\<rparr>"
    by (simp add: sn_def pm)
  have st: "breakpoints sn = [(1, ?b1), (2, ?b2)]"
    "source_info sn ''/play/tasks.yml'' = None"
    by (simp_all add: sn connected_debugger_def)
  have p: "alb_path ?b1 = ''/play/tasks.yml''" "alb_path ?b2 = ''/play/tasks.yml''"
    by (simp_all add: alb_path_def example_source_def)
  have ext: "extend_with_None 1000 [Some (0::int)] 10
             = Inr [Some 0, None, None, None, None, None, None, None, None, None, None]"
    by (simp add: extend_with_None_def sys_maxsize_def numeral_eq_Suc)
  have set: "py_setitem [Some (0::int), None, None, None, None, None, None, None, None, None, None]
               10 (Some 1) = Inr [Some 0, None, None, None, None, None, None, None, None, None, Some 1]"
    by (simp add: py_setitem_def numeral_eq_Suc)
  have sr: "spec_resolve [Some 0, None, None, None, None, None, None, None, None, None, Some 1] (-100) = Inl IndexError"
    by (simp add: spec_resolve_def spec_scan_back.simps py_index_def)
  have re: "reresolve_breakpoint [Some 0, None, None, None, None, None, None, None, None, None, Some 1] ?b1 = Inl IndexError"
    by (simp add: reresolve_breakpoint_spec sr)
  have loop: "reresolve_loop ''/play/tasks.yml'' [Some 0, None, None, None, None, None, None, None, None, None, Some 1] [(1, ?b1), (2, ?b2)]
              = (Some IndexError, [(1, ?b1), (2, ?b2)], [])"
    by (simp add: p re)
  have reg: "register_path_breakpoint 1000 ''/play/tasks.yml'' 10 1 sn
             = (Inl IndexError,
                sn\<lparr>source_info := (source_info sn)(''/play/tasks.yml'' \<mapsto> [Some 0, None, None, None, None, None, None, None, None, None, Some 1]),
                    breakpoints := [(1, ?b1), (2, ?b2)],
                    send_queue := send_queue sn @ []\<rparr>)"
    by (simp add: register_path_breakpoint_def Let_def st ext set loop
          del: reresolve_loop.simps)
  have fr: "fst (process_message_SetBreakpoints (example_request 1 [-100, 10]) connected_debugger) = Inr ()"
    by (simp add: pm)
  have m: "map (\<lambda>(k, b). (k, alb_path b, sb_line (alb_source_breakpoint b),
                      bp_verified (alb_breakpoint b), bp_line (alb_breakpoint b),
                      bp_end_line (alb_breakpoint b)))
       (breakpoints sn)
       = [(1, ''/play/tasks.yml'', -100, False, Some (-100), None),
          (2, ''/play/tasks.yml'', 10, False, Some 10, None)]"
    by (simp add: st alb_path_def example_source_def mk_Breakpoint_def)
  show ?thesis
    unfolding sn_def[symmetric]
    using fr st(2) m p by (simp add: reg st(1))
qed

text \<open>
  Claim C2 against the code. \<open>ended\<close> empties \<open>_waiting_threads\<close> and notifies; the
  woken thread evaluates \<open>tid in self._waiting_threads\<close>, which is false, and goes on
  waiting: after \<open>ended\<close> alone the wait of thread 2 has not returned. A \<open>_continue\<close>
  for the thread does release it.
\<close>

theorem ended_leaves_waiting_thread_blocked:
  "wait_for 2 [Ended] [] = None
   \<and> wait_for 2 [Continue [2] None] [] = Some [(2, None)]
   \<and> wait_for 2 [Ended, Ended] [(3, Some StepIn)] = None"
  by (simp add: ended_def continue_threads_def)

text \<open>
  Claim C8 against the code. \<open>sendall\<close> tests \<open>self._cancel_funcs\<close>, which holds the
  operation's own cancel function as long as the token is not cancelled and is empty once
  it is: a peer error on a token that was never cancelled is raised as \<open>CancelledError\<close>,
  and an error seen once \<open>cancel()\<close> has finished as the plain \<open>OSError\<close>; only an
  error seen while \<open>cancel()\<close> is still running comes out as \<open>CancelledError\<close>.
  \<open>recv_into\<close> has no handler, so an \<open>OSError\<close> after a cancellation stays an
  \<open>OSError\<close>. \<open>accept\<close> tests \<open>self._cancelled\<close> and tells the two apart.
\<close>

theorem sendall_confuses_cancellation_and_peer_error:
  "fst (sendall new_token Not_cancelled (Raises OSError)) = Inl CancelledError
   \<and> fst (sendall new_token Cancel_finished (Raises OSError)) = Inl OSError
   \<and> fst (recv_into new_token Cancel_finished (Raises OSError)) = Inl OSError
   \<and> fst (accept new_token Not_cancelled (Raises OSError :: unit outcome)) = Inl OSError
   \<and> fst (accept new_token Cancel_finished (Raises OSError :: unit outcome)) = Inl CancelledError
   \<and> fst (sendall new_token Cancel_running (Raises OSError)) = Inl CancelledError
   \<and> fst (accept new_token Cancel_running (Raises OSError :: unit outcome)) = Inl CancelledError"
  by (simp add: sendall_def recv_into_def accept_def new_token_def with_cancel_enter_def
        with_cancel_exit_def cancel_def is_OSError_def seen_by_handler_def seen_at_exit_def)

section \<open>Round trips of pack and unpack\<close>

lemma as_opt_str_json [simp]: "as_opt_str (json_opt_str v) = Inr v"
  by (cases v) (simp_all add: as_opt_str_def json_opt_str_def)

lemma as_opt_int_json [simp]: "as_opt_int (json_opt_int v) = Inr v"
  by (cases v) (simp_all add: as_opt_int_def json_opt_int_def)

lemma unpack_pack_Checksum: "unpack_Checksum (pack_Checksum c) = Inr c"
  by (simp add: unpack_Checksum_def pack_Checksum_def as_str_def)

lemma collect_map_Inr: "(\<And>x. x \<in> set xs \<Longrightarrow> f (g x) = Inr x) \<Longrightarrow> collect (map (f \<circ> g) xs) = Inr xs"
  by (induction xs) auto

lemma unpack_pack_Source: "unpack_Source (pack_Source s) = Inr s"
proof (induction s)
  case (Source name path source_reference presentation_hint origin sources adapter_data checksums)
  have ss: "collect (map (unpack_Source \<circ> pack_Source) sources) = Inr sources"
    by (rule collect_map_Inr) (rule Source.IH)
  have cs: "collect (map (unpack_Checksum \<circ> pack_Checksum) checksums) = Inr checksums"
    by (rule collect_map_Inr) (rule unpack_pack_Checksum)
  show ?case
    by (subst unpack_Source.simps)
       (simp add: dict_get_def py_iter_def ss cs source_reference_or_0_def as_str_def)
qed

lemma unpack_pack_Breakpoint_with_source:
  "bp_source b = Some s \<Longrightarrow> unpack_Breakpoint (pack_Breakpoint b) = Inr b"
  by (simp add: unpack_Breakpoint_def pack_Breakpoint_def dict_get_def as_bool_def
        unpack_pack_Source)

text \<open>
  Claim C7 against the code. For a breakpoint without a source, \<open>pack\<close> writes
  \<open>"source": None\<close>; \<open>unpack\<close> finds the key and calls \<open>Source.unpack(None)\<close>, which
  raises AttributeError. The round trip holds for a checksum, for a source, and for a
  breakpoint that has a source (the three lemmas above).
\<close>

theorem unpack_pack_default_Breakpoint_raises:
  "unpack_Breakpoint (pack_Breakpoint default_Breakpoint) = Inl AttributeError"
  by (simp add: unpack_Breakpoint_def pack_Breakpoint_def default_Breakpoint_def dict_get_def
        as_bool_def as_opt_int_def as_opt_str_def json_opt_int_def json_opt_str_def
        unpack_Source.simps)

end
